theory Spec2Isabelle
  imports Complex_Main "HOL-Library.Multiset" "HOL-Library.Product_Lexorder"
begin

section \<open>Radar archive decoding, raster export and bird-track diagnostics\<close>

text \<open>
  A shallow embedding of \<^verbatim>\<open>opera_retrieval/formatting.py\<close>,
  \<^verbatim>\<open>opera_retrieval/diagnostics.py\<close>, \<^verbatim>\<open>opera_retrieval/bird_tracks.py\<close> and
  \<^verbatim>\<open>meteo_birds/utils.py\<close>.

  Conventions of the embedding.
  \<^item> A Python float is a \<open>pyfloat\<close>: not-a-number or a real value. Rounding and the
    infinities are not modelled; comparisons involving not-a-number are written out
    (\<open>!=\<close> is true, \<open><\<close> is false), as IEEE 754 and numpy define them.
  \<^item> A two-dimensional array is a list of rows.
  \<^item> Calls into libraries (pyproj, the \<open>strptime\<close> of \<open>datetime\<close>, the HTTP client) are
    parameters of the functions that make them. An archive member's payload is the content
    that h5py has read from it (a readable ODIM file).
  \<^item> Exceptions are values: a function that may raise returns \<open>error + 'a\<close>.
\<close>

subsection \<open>Errors and floats\<close>

text \<open>
  The exceptions. \<open>ValueError_no_valid_HDF5\<close> is the ValueError that the two archive
  decoders raise themselves ("Aucun fichier HDF5 valide"); \<open>ValueError\<close> is any other one.
\<close>

datatype error =
    ValueError
  | TypeError
  | ZeroDivisionError
  | RuntimeError
  | OSError
  | KeyError
  | CRSError
  | AlignmentError
  | ValueError_no_valid_HDF5

datatype pyfloat = NaN | Fin real

text \<open>\<^verbatim>\<open>a != c\<close> on floats: a not-a-number differs from every value.\<close>

fun float_ne :: "pyfloat \<Rightarrow> real \<Rightarrow> bool" where
  "float_ne NaN c = True"
| "float_ne (Fin a) c = (a \<noteq> c)"

text \<open>\<^verbatim>\<open>a < c\<close> on floats: false when \<open>a\<close> is not-a-number.\<close>

fun float_lt :: "pyfloat \<Rightarrow> real \<Rightarrow> bool" where
  "float_lt NaN c = False"
| "float_lt (Fin a) c = (a < c)"

text \<open>
  \<^verbatim>\<open>x % y\<close> on floats, for a divisor \<open>y \<noteq> 0\<close>: the remainder has the sign of the divisor.
  The source only divides by the constant 360.
\<close>

definition float_mod :: "real \<Rightarrow> real \<Rightarrow> real" where
  "float_mod x y = x - y * of_int \<lfloor>x / y\<rfloor>"

subsection \<open>Single-file decode: \<^verbatim>\<open>odim_hdf5_to_dataset\<close>\<close>

text \<open>
  The attributes of the \<^verbatim>\<open>where\<close> group and the array
  \<^verbatim>\<open>dataset1/data1/data\<close> of one ODIM file.
\<close>

record hdf5_where =
  xsize :: int
  ysize :: int
  xscale :: real
  yscale :: real
  projdef :: string
  LL_lon :: real
  LL_lat :: real

record hdf5_file =
  data1 :: "pyfloat list list"
  where_attrs :: hdf5_where

text \<open>
  The two pyproj objects the decoder builds from the projection string:
  \<^verbatim>\<open>Proj(projdef)\<close>, applied to (lon, lat), and the transformer from the projection to
  geographic coordinates, applied to (x, y) and returning (lon, lat);
  \<open>from_epsg4326\<close> is the transformer of the raster export's bounding box, and \<open>x_0\<close>,
  \<open>y_0\<close> are the attributes the export looks for with \<^verbatim>\<open>hasattr\<close>. \<open>is_projdef\<close>
  tells the strings that define a projection; on the others \<^verbatim>\<open>Proj\<close> raises.
\<close>

record pyproj =
  proj_laea :: "string \<Rightarrow> real \<Rightarrow> real \<Rightarrow> real \<times> real"
  transform :: "string \<Rightarrow> real \<Rightarrow> real \<Rightarrow> real \<times> real"
  from_epsg4326 :: "string \<Rightarrow> real \<Rightarrow> real \<Rightarrow> real \<times> real"
  is_projdef :: "string \<Rightarrow> bool"
  x_0 :: "string \<Rightarrow> real option"
  y_0 :: "string \<Rightarrow> real option"

record dataset =
  reflectivity :: "pyfloat list list"
  mask :: "int list list"
  lat_grid :: "real list list"
  lon_grid :: "real list list"
  attrs :: hdf5_where

definition fill_value :: real where
  "fill_value = - 9999000"

text \<open>\<^verbatim>\<open>np.arange(n)\<close> as floats: 0, 1, ..., n - 1 (empty when \<open>n \<le> 0\<close>).\<close>

text \<open>
  The arrays and attributes the decoder computes from a file it can read: the rows of the
  file's array in reverse order (north up), the mesh of projected coordinates and its
  geographic coordinates, the validity mask and the reflectivity. What the function raises
  (on bytes h5py cannot read, on a string that defines no projection, on an array that is
  not \<open>ysize\<close> rows of \<open>xsize\<close> cells) is in \<open>decode_member\<close> below.
\<close>

definition arange :: "int \<Rightarrow> real list" where
  "arange n = map of_int [0..n - 1]"

definition odim_hdf5_to_dataset :: "pyproj \<Rightarrow> bool \<Rightarrow> hdf5_file \<Rightarrow> dataset" where
  "odim_hdf5_to_dataset P noise_as_zero hdf5 =
     (let data' = rev (data1 hdf5);
          w = where_attrs hdf5;
          (LL_x, LL_y) = proj_laea P (projdef w) (LL_lon w) (LL_lat w);
          x_proj = map (\<lambda>k. LL_x + k * xscale w) (arange (xsize w));
          y_proj = map (\<lambda>k. LL_y + k * yscale w) (arange (ysize w));
          lon_g = map (\<lambda>y. map (\<lambda>x. fst (transform P (projdef w) x y)) x_proj) y_proj;
          lat_g = map (\<lambda>y. map (\<lambda>x. snd (transform P (projdef w) x y)) x_proj) y_proj;
          msk = map (map (\<lambda>v. if float_ne v fill_value then 1 else 0)) data';
          refl = map (map (\<lambda>v. if float_ne v fill_value then v else NaN)) data';
          refl' = (if noise_as_zero
                   then map (map (\<lambda>v. if float_lt v 0 then Fin 0 else v)) refl
                   else refl)
      in \<lparr> reflectivity = refl', mask = msk, lat_grid = lat_g, lon_grid = lon_g,
           attrs = w \<rparr>)"

subsection \<open>Raster export: \<^verbatim>\<open>radar_timestep_ds_to_geotiff\<close>\<close>

text \<open>\<^verbatim>\<open>DataArray.fillna(0)\<close>: every not-a-number becomes 0.\<close>

definition fillna :: "real \<Rightarrow> pyfloat list list \<Rightarrow> pyfloat list list" where
  "fillna c a = map (map (\<lambda>v. case v of NaN \<Rightarrow> Fin c | Fin r \<Rightarrow> Fin r)) a"

text \<open>
  \<^verbatim>\<open>xr.where(mask == 0, missing_value, refl)\<close> on two arrays of one shape: the
  missing value where the mask is 0, the cell of \<open>refl\<close> elsewhere.
\<close>

definition where_mask0 :: "int list list \<Rightarrow> real \<Rightarrow> pyfloat list list \<Rightarrow> pyfloat list list" where
  "where_mask0 m missing_value a =
     map (\<lambda>(mrow, arow). map (\<lambda>(k, v). if k = 0 then Fin missing_value else v) (zip mrow arow))
       (zip m a)"

text \<open>
  What is handed to the raster writer: the band, the projected coordinates of the columns
  and rows, the coordinate reference system, the no-data value and the clip box (in the
  raster's projection) when a bounding box is given. Clipping and writing are the raster
  library's.
\<close>

record raster =
  band :: "pyfloat list list"
  x_coords :: "real list"
  y_coords :: "real list"
  crs :: string
  nodata :: real
  clip_box :: "(real \<times> real \<times> real \<times> real) option"

text \<open>
  \<^verbatim>\<open>transform_bbox_to_raster_crs\<close>; \<open>to_crs\<close> is the transformer from EPSG:4326 to the
  raster's projection. \<^verbatim>\<open>ds.dims['x']\<close> is the number of columns.
\<close>

definition transform_bbox_to_raster_crs ::
  "(string \<Rightarrow> real \<Rightarrow> real \<Rightarrow> real \<times> real) \<Rightarrow> real \<times> real \<times> real \<times> real \<Rightarrow> string
     \<Rightarrow> real \<times> real \<times> real \<times> real" where
  "transform_bbox_to_raster_crs to_crs bbox raster_crs =
     (case bbox of (lon_min, lon_max, lat_min, lat_max) \<Rightarrow>
        (let (x_min, y_min) = to_crs raster_crs lon_min lat_min;
             (x_max, y_max) = to_crs raster_crs lon_max lat_max
         in (x_min, x_max, y_min, y_max)))"

definition radar_timestep_ds_to_geotiff ::
  "pyproj \<Rightarrow> dataset \<Rightarrow> real \<Rightarrow> (real \<times> real \<times> real \<times> real) option \<Rightarrow> raster" where
  "radar_timestep_ds_to_geotiff P ds missing_value bbox =
     (let crs_string = projdef (attrs ds);
          x0 = (case x_0 P crs_string of Some v \<Rightarrow> v | None \<Rightarrow> 0);
          y0 = (case y_0 P crs_string of Some v \<Rightarrow> v | None \<Rightarrow> 0);
          xs = map (\<lambda>k. k * xscale (attrs ds) + x0)
                 (arange (case reflectivity ds of [] \<Rightarrow> 0 | r # _ \<Rightarrow> int (length r)));
          ys = map (\<lambda>k. k * (- yscale (attrs ds)) + y0)
                 (arange (int (length (reflectivity ds))));
          refl = fillna 0 (reflectivity ds);
          refl' = where_mask0 (mask ds) missing_value refl
      in \<lparr> band = refl', x_coords = xs, y_coords = rev ys, crs = crs_string,
           nodata = missing_value,
           clip_box = map_option
             (\<lambda>b. transform_bbox_to_raster_crs (from_epsg4326 P) b crs_string) bbox \<rparr>)"

subsection \<open>Archive members and their timestamps\<close>

text \<open>
  The fields of a timestamp parsed with the format \<^verbatim>\<open>%Y%m%d%H%M\<close> (seconds are 0,
  the zone is UTC).
\<close>

record datetime =
  year :: int
  month :: int
  day :: int
  hour :: int
  minute :: int

text \<open>
  \<^verbatim>\<open>datetime.strptime(s, "%Y%m%d%H%M")\<close> is a parameter: \<open>None\<close> stands for the
  ValueError it raises on a string that is not a timestamp.
\<close>

type_synonym strptime = "string \<Rightarrow> datetime option"

text \<open>
  The bytes of a member, by what h5py makes of them: bytes that are not an HDF5 file
  (\<^verbatim>\<open>h5py.File\<close> raises OSError), an HDF5 file without the array
  \<^verbatim>\<open>dataset1/data1/data\<close> or without an attribute of \<^verbatim>\<open>where\<close> that the decoder reads
  (KeyError), or a file that has them.
\<close>

datatype content =
    Not_HDF5
  | Incomplete
  | ODIM hdf5_file

text \<open>
  A member of the archive: its name, and what \<^verbatim>\<open>tar.extractfile(member)\<close> gives, which
  is \<open>None\<close> for a member that is neither a regular file nor a link. For a link whose
  target is missing from the archive \<^verbatim>\<open>extractfile\<close> itself raises KeyError, between
  the same two statements as the decoding of an incomplete file: such a member has the
  content \<open>Incomplete\<close>.
\<close>

record tar_member =
  name :: string
  extractfile :: "content option"

text \<open>
  \<^verbatim>\<open>s.split(sep)\<close> for a one-character separator: the pieces between the separators,
  empty pieces included; the result is never empty.
\<close>

fun str_split :: "char \<Rightarrow> string \<Rightarrow> string list" where
  "str_split sep [] = [[]]"
| "str_split sep (c # cs) =
     (if c = sep then [] # str_split sep cs
      else (case str_split sep cs of
              [] \<Rightarrow> [[c]]
            | w # ws \<Rightarrow> (c # w) # ws))"

text \<open>\<^verbatim>\<open>sep.join(parts)\<close>.\<close>

fun str_join :: "string \<Rightarrow> string list \<Rightarrow> string" where
  "str_join sep [] = []"
| "str_join sep [w] = w"
| "str_join sep (w # v # ws) = w @ sep @ str_join sep (v # ws)"

definition endswith :: "string \<Rightarrow> string \<Rightarrow> bool" where
  "endswith s suffix \<longleftrightarrow>
     length suffix \<le> length s \<and> drop (length s - length suffix) s = suffix"

text \<open>
  The \<^verbatim>\<open>try\<close> block of the decoders:
  \<^verbatim>\<open>ts_str = member.name.split("_")[1].split(".")[0]\<close> and the call of
  \<open>strptime\<close>. \<open>None\<close> is the \<^verbatim>\<open>except Exception\<close> branch, taken on the IndexError of
  a name without underscore and on the ValueError of \<open>strptime\<close>.
\<close>

definition member_timestamp :: "strptime \<Rightarrow> string \<Rightarrow> datetime option" where
  "member_timestamp sp nm =
     (case str_split CHR ''_'' nm of
        _ # second # _ \<Rightarrow>
          (case str_split CHR ''.'' second of
             [] \<Rightarrow> None
           | ts_str # _ \<Rightarrow> sp ts_str)
      | _ \<Rightarrow> None)"

text \<open>
  \<^verbatim>\<open>a % b\<close> on integers: ZeroDivisionError for \<open>b = 0\<close>; otherwise the remainder has the
  sign of the divisor, which is what \<open>mod\<close> on \<open>int\<close> computes.
\<close>

definition py_mod :: "int \<Rightarrow> int \<Rightarrow> error + int" where
  "py_mod a b = (if b = 0 then Inl ZeroDivisionError else Inr (a mod b))"

text \<open>
  The order of \<^verbatim>\<open>np.datetime64\<close> values is chronological; on calendar dates it is the
  lexicographic order of the fields.
\<close>

definition time_key :: "datetime \<Rightarrow> int \<times> int \<times> int \<times> int \<times> int" where
  "time_key ts = (year ts, month ts, day ts, hour ts, minute ts)"

subsection \<open>Decoding one member\<close>

text \<open>Two arrays have the same numbers of rows and of cells in each row.\<close>

definition same_shape :: "'a list list \<Rightarrow> 'b list list \<Rightarrow> bool" where
  "same_shape a b \<longleftrightarrow> list_all2 (\<lambda>r q. length r = length q) a b"

text \<open>
  The constructor \<^verbatim>\<open>xr.Dataset\<close> that ends \<^verbatim>\<open>odim_hdf5_to_dataset\<close>: the two
  variables and the two coordinates are declared on the dimensions \<open>(y, x)\<close>, and xarray
  raises ValueError (conflicting sizes) when their shapes differ, that is when the array of
  the file is not \<open>ysize\<close> rows of \<open>xsize\<close> cells.
\<close>

definition xr_Dataset :: "dataset \<Rightarrow> error + dataset" where
  "xr_Dataset ds =
     (if same_shape (reflectivity ds) (lat_grid ds) \<and> same_shape (mask ds) (lat_grid ds)
         \<and> same_shape (lon_grid ds) (lat_grid ds)
      then Inr ds else Inl ValueError)"

text \<open>
  The statement
  \<^verbatim>\<open>with io.BytesIO(f.read()) as file_like, h5py.File(file_like, "r") as hdf: ds = odim_hdf5_to_dataset(hdf)\<close>
  of the decoders, with every exception it lets through: those of h5py on the bytes, the
  CRSError of \<^verbatim>\<open>Proj\<close> on a string that defines no projection, and the ValueError of
  \<^verbatim>\<open>xr.Dataset\<close>. No \<^verbatim>\<open>try\<close> surrounds it.
\<close>

definition decode_member :: "pyproj \<Rightarrow> content \<Rightarrow> error + dataset" where
  "decode_member P f =
     (case f of
        Not_HDF5 \<Rightarrow> Inl OSError
      | Incomplete \<Rightarrow> Inl KeyError
      | ODIM hdf \<Rightarrow>
          if \<not> is_projdef P (projdef (where_attrs hdf)) then Inl CRSError
          else xr_Dataset (odim_hdf5_to_dataset P True hdf))"

text \<open>
  \<^verbatim>\<open>xr.concat(datasets, dim="time")\<close>: the grids in the order given; xarray raises
  (AlignmentError, a ValueError) when two grids differ in the size of a dimension, and
  ValueError on an empty list.
\<close>

definition xr_concat :: "(datetime \<times> dataset) list \<Rightarrow> error + (datetime \<times> dataset) list" where
  "xr_concat ds =
     (case ds of
        [] \<Rightarrow> Inl ValueError
      | d # rest \<Rightarrow>
          if list_all (\<lambda>e. same_shape (reflectivity (snd e)) (reflectivity (snd d))) rest
          then Inr ds else Inl AlignmentError)"

subsection \<open>Archive decoder: \<^verbatim>\<open>radar_tar_to_dataset\<close>\<close>

text \<open>What the decoders print.\<close>

datatype message =
    Warn_timestamp string
  | Reading string datetime
  | Concatening
  | Created string string

text \<open>
  The state of the loop over the members: the lines printed so far and the list
  \<^verbatim>\<open>datasets\<close>, each grid with the time coordinate \<^verbatim>\<open>expand_dims\<close> gave it.
\<close>

record decoder_state =
  stdout :: "message list"
  datasets :: "(datetime \<times> dataset) list"

text \<open>
  One iteration of the loop; each \<^verbatim>\<open>continue\<close> returns the state reached, and an
  exception of the filter or of the decoding leaves the loop.
\<close>

definition dataset_loop_body ::
  "strptime \<Rightarrow> pyproj \<Rightarrow> int \<Rightarrow> tar_member \<Rightarrow> decoder_state \<Rightarrow> error + decoder_state" where
  "dataset_loop_body sp P timestep member s =
     (if \<not> endswith (name member) ''.hdf5'' then Inr s
      else case member_timestamp sp (name member) of
        None \<Rightarrow> Inr (s\<lparr>stdout := stdout s @ [Warn_timestamp (name member)]\<rparr>)
      | Some ts \<Rightarrow>
          (let ts_minutes = hour ts * 60 + minute ts in
           case py_mod ts_minutes timestep of
             Inl e \<Rightarrow> Inl e
           | Inr r \<Rightarrow>
               if r \<noteq> 0 then Inr s
               else
                 (let s1 = s\<lparr>stdout := stdout s @ [Reading (name member) ts]\<rparr> in
                  case extractfile member of
                    None \<Rightarrow> Inr s1
                  | Some f \<Rightarrow>
                      (case decode_member P f of
                         Inl e \<Rightarrow> Inl e
                       | Inr ds \<Rightarrow> Inr (s1\<lparr>datasets := datasets s1 @ [(ts, ds)]\<rparr>)))))"

text \<open>
  The loop over \<^verbatim>\<open>tar.getmembers()\<close>. An exception ends it; the lines printed before
  the failing member stay printed.
\<close>

fun dataset_loop ::
  "strptime \<Rightarrow> pyproj \<Rightarrow> int \<Rightarrow> tar_member list \<Rightarrow> decoder_state
     \<Rightarrow> decoder_state \<times> error option" where
  "dataset_loop sp P timestep [] s = (s, None)"
| "dataset_loop sp P timestep (member # members) s =
     (case dataset_loop_body sp P timestep member s of
        Inl e \<Rightarrow> (s, Some e)
      | Inr s' \<Rightarrow> dataset_loop sp P timestep members s')"

text \<open>
  The decoder returns what it printed and either the exception raised or the time series:
  \<^verbatim>\<open>xr.concat(datasets, dim="time").sortby("time")\<close> is the list of the grids with
  their times, sorted by time (the sort of \<^verbatim>\<open>sortby\<close> is stable).
  \<open>ValueError_no_valid_HDF5\<close> is the ValueError the decoder raises itself.
\<close>

definition radar_tar_to_dataset ::
  "strptime \<Rightarrow> pyproj \<Rightarrow> tar_member list \<Rightarrow> int
     \<Rightarrow> message list \<times> (error + (datetime \<times> dataset) list)" where
  "radar_tar_to_dataset sp P tar timestep =
     (case dataset_loop sp P timestep tar \<lparr>stdout = [], datasets = []\<rparr> of
        (s, Some e) \<Rightarrow> (stdout s, Inl e)
      | (s, None) \<Rightarrow>
          if datasets s = [] then (stdout s, Inl ValueError_no_valid_HDF5)
          else (stdout s @ [Concatening],
                case xr_concat (datasets s) of
                  Inl e \<Rightarrow> Inl e
                | Inr ds \<Rightarrow> Inr (sort_key (\<lambda>d. time_key (fst d)) ds)))"

subsection \<open>Archive export: \<^verbatim>\<open>radar_tar_to_geotiff\<close>\<close>

text \<open>
  The raster library is a parameter: what assigning the reference system, clipping to the
  box and \<^verbatim>\<open>to_raster\<close> do with a raster and its path (directory and file name):
  \<open>None\<close> when the file is written, the exception otherwise (no data in the box, a
  directory that does not exist).
\<close>

type_synonym rio = "string \<Rightarrow> string \<Rightarrow> raster \<Rightarrow> error option"

text \<open>
  The state of the export loop: the lines printed, the rasters written (directory, file
  name, raster) and the flag \<^verbatim>\<open>tar_empty\<close>.
\<close>

record export_state =
  printed :: "message list"
  written :: "(string \<times> string \<times> raster) list"
  tar_empty :: bool

definition geotiff_loop_body ::
  "strptime \<Rightarrow> pyproj \<Rightarrow> rio \<Rightarrow> string \<Rightarrow> (real \<times> real \<times> real \<times> real) option \<Rightarrow> int
     \<Rightarrow> tar_member \<Rightarrow> export_state \<Rightarrow> error + export_state" where
  "geotiff_loop_body sp P to_raster output_dir bbox timestep member s =
     (if \<not> endswith (name member) ''.hdf5'' then Inr s
      else case member_timestamp sp (name member) of
        None \<Rightarrow> Inr (s\<lparr>printed := printed s @ [Warn_timestamp (name member)]\<rparr>)
      | Some ts \<Rightarrow>
          (let ts_minutes = hour ts * 60 + minute ts in
           case py_mod ts_minutes timestep of
             Inl e \<Rightarrow> Inl e
           | Inr r \<Rightarrow>
               if r \<noteq> 0 then Inr s
               else
                 (let s1 = s\<lparr>printed := printed s @ [Reading (name member) ts]\<rparr> in
                  case extractfile member of
                    None \<Rightarrow> Inr s1
                  | Some f \<Rightarrow>
                      (case decode_member P f of
                         Inl e \<Rightarrow> Inl e
                       | Inr ds \<Rightarrow>
                           (let geotiff_fn =
                                  str_join ''_'' (butlast (str_split CHR ''.'' (name member)))
                                    @ ''.tif'';
                                r = radar_timestep_ds_to_geotiff P ds (- 9999) bbox
                            in case to_raster output_dir geotiff_fn r of
                                 Some e \<Rightarrow> Inl e
                               | None \<Rightarrow>
                                   Inr (s1\<lparr>printed :=
                                             printed s1 @ [Created output_dir geotiff_fn],
                                           written :=
                                             written s1 @ [(output_dir, geotiff_fn, r)],
                                           tar_empty := False\<rparr>))))))"

fun geotiff_loop ::
  "strptime \<Rightarrow> pyproj \<Rightarrow> rio \<Rightarrow> string \<Rightarrow> (real \<times> real \<times> real \<times> real) option \<Rightarrow> int
     \<Rightarrow> tar_member list \<Rightarrow> export_state \<Rightarrow> export_state \<times> error option" where
  "geotiff_loop sp P to_raster output_dir bbox timestep [] s = (s, None)"
| "geotiff_loop sp P to_raster output_dir bbox timestep (member # members) s =
     (case geotiff_loop_body sp P to_raster output_dir bbox timestep member s of
        Inl e \<Rightarrow> (s, Some e)
      | Inr s' \<Rightarrow> geotiff_loop sp P to_raster output_dir bbox timestep members s')"

definition radar_tar_to_geotiff ::
  "strptime \<Rightarrow> pyproj \<Rightarrow> rio \<Rightarrow> tar_member list \<Rightarrow> string
     \<Rightarrow> (real \<times> real \<times> real \<times> real) option \<Rightarrow> int \<Rightarrow> export_state \<times> error option" where
  "radar_tar_to_geotiff sp P to_raster tar output_dir bbox timestep =
     (case geotiff_loop sp P to_raster output_dir bbox timestep tar
             \<lparr>printed = [], written = [], tar_empty = True\<rparr> of
        (s, Some e) \<Rightarrow> (s, Some e)
      | (s, None) \<Rightarrow>
          if tar_empty s then (s, Some ValueError_no_valid_HDF5) else (s, None))"

subsection \<open>What one member contributes\<close>

text \<open>
  The exception that the iteration of \<^verbatim>\<open>radar_tar_to_dataset\<close> for a member raises, if
  any, and the grid it appends, if any, written as functions of the member alone;
  \<open>dataset_loop_body_outcome\<close> below shows that the loop body does exactly this.
\<close>

definition member_error :: "strptime \<Rightarrow> pyproj \<Rightarrow> int \<Rightarrow> tar_member \<Rightarrow> error option" where
  "member_error sp P timestep member =
     (if endswith (name member) ''.hdf5'' then
        (case member_timestamp sp (name member) of
           None \<Rightarrow> None
         | Some ts \<Rightarrow>
             if timestep = 0 then Some ZeroDivisionError
             else if (hour ts * 60 + minute ts) mod timestep = 0
             then (case extractfile member of
                     None \<Rightarrow> None
                   | Some f \<Rightarrow> (case decode_member P f of Inl e \<Rightarrow> Some e | Inr ds \<Rightarrow> None))
             else None)
      else None)"

definition retained_entry ::
  "strptime \<Rightarrow> pyproj \<Rightarrow> int \<Rightarrow> tar_member \<Rightarrow> (datetime \<times> dataset) option" where
  "retained_entry sp P timestep member =
     (if endswith (name member) ''.hdf5'' then
        (case member_timestamp sp (name member) of
           None \<Rightarrow> None
         | Some ts \<Rightarrow>
             if timestep \<noteq> 0 \<and> (hour ts * 60 + minute ts) mod timestep = 0
             then (case extractfile member of
                     None \<Rightarrow> None
                   | Some f \<Rightarrow>
                       (case decode_member P f of Inl e \<Rightarrow> None | Inr ds \<Rightarrow> Some (ts, ds)))
             else None)
      else None)"


subsection \<open>Heading diagnostic: \<^verbatim>\<open>compute_heading\<close>\<close>

text \<open>
  \<^verbatim>\<open>Geod(ellps="WGS84").inv(lon1, lat1, lon2, lat2)\<close>: forward azimuth, back azimuth and
  distance in meters of the geodesic between two points. A parameter.
\<close>

type_synonym geod = "real \<Rightarrow> real \<Rightarrow> real \<Rightarrow> real \<Rightarrow> real \<times> real \<times> real"

text \<open>
  \<^verbatim>\<open>pd.Series(values, index=df.index)\<close>: pandas raises ValueError when the number of
  values is not the length of the index.
\<close>

definition pd_Series :: "'a list \<Rightarrow> nat \<Rightarrow> error + 'a list" where
  "pd_Series values index_length =
     (if length values = index_length then Inr values else Inl ValueError)"

text \<open>
  The frame is the list of its rows; \<open>lon_name\<close> and \<open>lat_name\<close> select the two columns.
  \<^verbatim>\<open>values[:-1]\<close> is \<open>butlast\<close> and \<^verbatim>\<open>values[1:]\<close> is \<open>tl\<close>, both empty on an empty
  column. \<^verbatim>\<open>geod.inv\<close> works on the four arrays element by element (on no element
  when they are empty). An entry \<open>None\<close> of the result is the undefined heading.
\<close>

definition compute_heading ::
  "geod \<Rightarrow> 'row list \<Rightarrow> ('row \<Rightarrow> real) \<Rightarrow> ('row \<Rightarrow> real) \<Rightarrow> error + real option list" where
  "compute_heading geod_inv df lon_name lat_name =
     (let lon1 = butlast (map lon_name df); lat1 = butlast (map lat_name df);
          lon2 = tl (map lon_name df); lat2 = tl (map lat_name df);
          az = map (\<lambda>(a, b, c, d). fst (geod_inv a b c d))
                 (zip lon1 (zip lat1 (zip lon2 lat2)));
          az' = map (\<lambda>a. float_mod (a + 360) 360) az
      in pd_Series (None # map Some az') (length df))"

subsection \<open>Bird tracks: \<^verbatim>\<open>BirdTracks.data\<close>\<close>

record BirdPoint =
  lat :: real
  lon :: real
  dat :: datetime

record BirdTracks =
  serial_ID :: string
  species :: string
  points :: "BirdPoint list"

text \<open>
  \<^verbatim>\<open>self.points()\<close> applies the call operator to the list held by the field \<open>points\<close>:
  Python raises TypeError (a list object is not callable).
\<close>

definition call_list :: "'a list \<Rightarrow> error + 'a list" where
  "call_list xs = Inl TypeError"

text \<open>
  \<open>as_dict\<close> is a property, so \<^verbatim>\<open>point.as_dict\<close> is the dictionary of the three
  fields; \<^verbatim>\<open>point.as_dict()\<close> calls that dictionary, which raises TypeError as well.
\<close>

definition as_dict :: "BirdPoint \<Rightarrow> BirdPoint" where
  "as_dict point = \<lparr> lat = lat point, lon = lon point, dat = dat point \<rparr>"

definition call_dict :: "BirdPoint \<Rightarrow> error + BirdPoint" where
  "call_dict d = Inl TypeError"

text \<open>A list comprehension whose element expression may raise.\<close>

fun comprehension :: "('a \<Rightarrow> error + 'b) \<Rightarrow> 'a list \<Rightarrow> error + 'b list" where
  "comprehension f [] = Inr []"
| "comprehension f (x # xs) =
     (case f x of
        Inl e \<Rightarrow> Inl e
      | Inr y \<Rightarrow> (case comprehension f xs of Inl e \<Rightarrow> Inl e | Inr ys \<Rightarrow> Inr (y # ys)))"

text \<open>The table returned: the rows of the frame, each with its heading.\<close>

definition data :: "geod \<Rightarrow> BirdTracks \<Rightarrow> error + (BirdPoint \<times> real option) list" where
  "data geod_inv self =
     (case call_list (points self) of
        Inl e \<Rightarrow> Inl e
      | Inr ps \<Rightarrow>
          (case comprehension (\<lambda>point. call_dict (as_dict point)) ps of
             Inl e \<Rightarrow> Inl e
           | Inr data_df \<Rightarrow>
               (case compute_heading geod_inv data_df lon lat of
                  Inl e \<Rightarrow> Inl e
                | Inr heading \<Rightarrow> Inr (zip data_df heading))))"

subsection \<open>Cone extraction: \<^verbatim>\<open>extract_reflectivity_cone\<close>\<close>

definition deg2rad :: "real \<Rightarrow> real" where
  "deg2rad x = x * pi / 180"

text \<open>
  The test \<^verbatim>\<open>(lat >= lat_min) & (lat <= lat_max) & (lon >= lon_min) & (lon <= lon_max)\<close>
  of one cell, with \<open>dlat = R / 111\<close> and \<open>dlon = R / (111 * cos (deg2rad lat0))\<close>. numpy
  divides by a zero float without raising: \<open>dlon\<close> is then infinite for \<open>R > 0\<close> (every
  longitude passes) and minus infinity or not-a-number otherwise (none passes).
\<close>

definition in_bbox :: "real \<Rightarrow> real \<Rightarrow> real \<Rightarrow> real \<Rightarrow> real \<Rightarrow> bool" where
  "in_bbox lat0 lon0 R la lo =
     (let dlat = R / 111;
          c = 111 * cos (deg2rad lat0)
      in lat0 - dlat \<le> la \<and> la \<le> lat0 + dlat
         \<and> (if c = 0 then 0 < R else lon0 - R / c \<le> lo \<and> lo \<le> lon0 + R / c))"

text \<open>
  \<^verbatim>\<open>np.where(mask)\<close> on a two-dimensional array: the row indices and the column
  indices of the true cells, in row-major order.
\<close>

definition np_where :: "bool list list \<Rightarrow> nat list \<times> nat list" where
  "np_where m =
     (let cells = [(i, j). i \<leftarrow> [0..<length m], j \<leftarrow> [0..<length (m ! i)], m ! i ! j]
      in (map fst cells, map snd cells))"

text \<open>
  \<^verbatim>\<open>isel\<close> with the slices \<open>y_min : y_max + 1\<close> and \<open>x_min : x_max + 1\<close>.
\<close>

definition isel :: "nat \<Rightarrow> nat \<Rightarrow> nat \<Rightarrow> nat \<Rightarrow> 'a list list \<Rightarrow> 'a list list" where
  "isel y_min y_max x_min x_max a =
     map (\<lambda>row. take (Suc x_max - x_min) (drop x_min row))
       (take (Suc y_max - y_min) (drop y_min a))"

text \<open>
  The first half of the function: the bounding box and the span of rows and columns of the
  cells it selects. The arrays \<open>lat\<close> and \<open>lon\<close> have one shape, so \<open>&\<close> works cell by cell.
\<close>

definition bbox_span ::
  "dataset \<Rightarrow> real \<Rightarrow> real \<Rightarrow> real \<Rightarrow> error + nat \<times> nat \<times> nat \<times> nat" where
  "bbox_span ds lat0 lon0 R =
     (let mask_bbox = map (\<lambda>(las, los). map (\<lambda>(la, lo). in_bbox lat0 lon0 R la lo) (zip las los))
                        (zip (lat_grid ds) (lon_grid ds));
          (iy, ix) = np_where mask_bbox
      in if length iy = 0 then Inl ValueError
         else Inr (Min (set iy), Max (set iy), Min (set ix), Max (set ix)))"

text \<open>
  \<^verbatim>\<open>(az - heading + 180) % 360 - 180\<close> on doubles, the deviation of an azimuth from the
  heading. Each sum and difference is rounded to a double; \<open>rnd\<close> is that rounding, a
  parameter. The remainder \<^verbatim>\<open>x % y\<close> is computed as numpy and Python do: C's
  \<open>fmod\<close>, which is exact and has the sign of \<open>x\<close>, and then, when the result is not 0 and
  its sign is not the divisor's, the divisor is added, a sum that is rounded too.
\<close>

definition c_fmod :: "real \<Rightarrow> real \<Rightarrow> real" where
  "c_fmod x y = x - y * of_int (if 0 \<le> x / y then \<lfloor>x / y\<rfloor> else \<lceil>x / y\<rceil>)"

definition float_rem :: "(real \<Rightarrow> real) \<Rightarrow> real \<Rightarrow> real \<Rightarrow> real" where
  "float_rem rnd x y =
     (let m = c_fmod x y
      in if m \<noteq> 0 \<and> ((y < 0) \<noteq> (m < 0)) then rnd (m + y) else m)"

definition angle_diff :: "(real \<Rightarrow> real) \<Rightarrow> real \<Rightarrow> real \<Rightarrow> real" where
  "angle_diff rnd az heading =
     rnd (float_rem rnd (rnd (rnd (az - heading) + 180)) 360 - 180)"

text \<open>
  What the theorems use of rounding to the nearest double: it is monotone, and it leaves
  the doubles 0, 180, -180 and 360 as they are.
\<close>

definition rounding :: "(real \<Rightarrow> real) \<Rightarrow> bool" where
  "rounding rnd \<longleftrightarrow>
     (\<forall>x y. x \<le> y \<longrightarrow> rnd x \<le> rnd y)
     \<and> rnd 0 = 0 \<and> rnd 180 = 180 \<and> rnd (- 180) = - 180 \<and> rnd 360 = 360"

text \<open>
  The second half: geodesic azimuth and distance of every cell of the cropped grid from
  the apex, the mask of the cone (\<open>O_angle\<close> is the source's parameter \<^verbatim>\<open>O\<close>),
  and \<^verbatim>\<open>refl.where(mask)\<close>, which keeps a cell where the mask holds and puts
  not-a-number elsewhere. The quotients and products of the function (\<open>R / 111\<close>,
  \<open>R * 1000\<close>, \<open>O_angle / 2\<close>) are taken as the reals they denote.
\<close>

definition extract_reflectivity_cone ::
  "(real \<Rightarrow> real) \<Rightarrow> geod \<Rightarrow> dataset \<Rightarrow> real \<Rightarrow> real \<Rightarrow> real \<Rightarrow> real \<Rightarrow> real
     \<Rightarrow> error + pyfloat list list" where
  "extract_reflectivity_cone rnd geod_inv ds lat0 lon0 heading O_angle R =
     (let R_m = R * 1000 in
      case bbox_span ds lat0 lon0 R of
        Inl e \<Rightarrow> Inl e
      | Inr (y_min, y_max, x_min, x_max) \<Rightarrow>
          (let lats = isel y_min y_max x_min x_max (lat_grid ds);
               lons = isel y_min y_max x_min x_max (lon_grid ds);
               refl = isel y_min y_max x_min x_max (reflectivity ds);
               mask_cone =
                 map (\<lambda>(los, las).
                        map (\<lambda>(lo, la).
                               (case geod_inv lon0 lat0 lo la of
                                  (az, back, distance) \<Rightarrow>
                                    \<bar>angle_diff rnd az heading\<bar> \<le> O_angle / 2
                                    \<and> distance \<le> R_m))
                          (zip los las))
                   (zip lons lats)
           in Inr (map (\<lambda>(vs, bs). map (\<lambda>(v, b). if b then v else NaN) (zip vs bs))
                     (zip refl mask_cone))))"

text \<open>The three arrays of a dataset have \<open>ny\<close> rows of \<open>nx\<close> cells.\<close>

definition shape_ok :: "dataset \<Rightarrow> nat \<Rightarrow> nat \<Rightarrow> bool" where
  "shape_ok ds ny nx \<longleftrightarrow>
     length (reflectivity ds) = ny \<and> length (lat_grid ds) = ny \<and> length (lon_grid ds) = ny
     \<and> list_all (\<lambda>row. length row = nx) (reflectivity ds)
     \<and> list_all (\<lambda>row. length row = nx) (lat_grid ds)
     \<and> list_all (\<lambda>row. length row = nx) (lon_grid ds)"

subsection \<open>Retry download: \<^verbatim>\<open>get_api_data\<close>\<close>

record response =
  status_code :: nat
  content :: string

text \<open>
  The network is a parameter: what \<^verbatim>\<open>requests.get\<close> gives at each attempt, \<open>None\<close> when
  it raises a RequestException (no connection, timeout, broken transfer).
  \<^verbatim>\<open>raise_for_status\<close> raises an HTTPError, a RequestException too, for a status from
  400 to 599. \<open>fetch\<close> is the body of the \<^verbatim>\<open>try\<close> up to the status check.
\<close>

definition fetch :: "(int \<Rightarrow> response option) \<Rightarrow> int \<Rightarrow> response option" where
  "fetch net attempt =
     (case net attempt of
        None \<Rightarrow> None
      | Some r \<Rightarrow> if 400 \<le> status_code r \<and> status_code r < 600 then None else Some r)"

text \<open>
  The state the download acts on: the files on disk, the calls of \<^verbatim>\<open>write_bytes\<close>
  made (path and bytes), and the seconds slept.
\<close>

record download_state =
  files :: "string \<rightharpoonup> string"
  write_calls :: "(string \<times> string) list"
  slept :: nat

text \<open>
  The loop over \<^verbatim>\<open>range(1, max_retries + 1)\<close>. The result is the exception raised or
  the value returned: the path after the write, \<open>None\<close> when the loop ends without a
  \<^verbatim>\<open>return\<close>.
\<close>

fun attempts_loop ::
  "(int \<Rightarrow> response option) \<Rightarrow> string \<Rightarrow> int \<Rightarrow> bool \<Rightarrow> int list \<Rightarrow> download_state
     \<Rightarrow> download_state \<times> (error + string option)" where
  "attempts_loop net output_path max_retries stop_on_maxretry [] s = (s, Inr None)"
| "attempts_loop net output_path max_retries stop_on_maxretry (attempt # rest) s =
     (case fetch net attempt of
        Some r \<Rightarrow>
          (s\<lparr>files := (files s)(output_path \<mapsto> content r),
             write_calls := write_calls s @ [(output_path, content r)]\<rparr>,
           Inr (Some output_path))
      | None \<Rightarrow>
          if attempt = max_retries \<and> stop_on_maxretry then (s, Inl RuntimeError)
          else attempts_loop net output_path max_retries stop_on_maxretry rest
                 (if attempt < max_retries then s\<lparr>slept := slept s + 5\<rparr> else s))"

definition get_api_data ::
  "(int \<Rightarrow> response option) \<Rightarrow> string \<Rightarrow> int \<Rightarrow> bool \<Rightarrow> download_state
     \<Rightarrow> download_state \<times> (error + string option)" where
  "get_api_data net output_path max_retries stop_on_maxretry s =
     attempts_loop net output_path max_retries stop_on_maxretry [1..max_retries] s"

subsection \<open>Half-day bucket: \<^verbatim>\<open>dat_to_dat_half\<close>\<close>

text \<open>
  \<^verbatim>\<open>dat.replace(minute=0, second=0, microsecond=0)\<close>, then the hour replaced by 12 or
  0. Seconds and microseconds, which the function sets to 0, are not fields of the record.
\<close>

definition dat_to_dat_half :: "datetime \<Rightarrow> datetime" where
  "dat_to_dat_half d =
     (let d' = d\<lparr>minute := 0\<rparr>;
          hour' = (if hour d' \<ge> 12 then 12 else 0)
      in d'\<lparr>hour := hour'\<rparr>)"

subsection \<open>Sample inputs\<close>

text \<open>
  A reading of twelve-digit stamps for the examples: year, month, day, hour and minute as
  decimal fields of widths 4, 2, 2, 2, 2, accepted when month, day, hour and minute are in
  range. The theorems hold for every \<open>strptime\<close>.
\<close>

definition digit :: "char \<Rightarrow> int option" where
  "digit c = map_of [(CHR ''0'', 0), (CHR ''1'', 1), (CHR ''2'', 2), (CHR ''3'', 3),
     (CHR ''4'', 4), (CHR ''5'', 5), (CHR ''6'', 6), (CHR ''7'', 7), (CHR ''8'', 8),
     (CHR ''9'', 9)] c"

fun decimal :: "int \<Rightarrow> string \<Rightarrow> int option" where
  "decimal acc [] = Some acc"
| "decimal acc (c # cs) =
     (case digit c of None \<Rightarrow> None | Some d \<Rightarrow> decimal (10 * acc + d) cs)"

definition days_in_month :: "int \<Rightarrow> int \<Rightarrow> int" where
  "days_in_month y m =
     (if m = 2 then (if y mod 4 = 0 \<and> (y mod 100 \<noteq> 0 \<or> y mod 400 = 0) then 29 else 28)
      else if m = 4 \<or> m = 6 \<or> m = 9 \<or> m = 11 then 30 else 31)"

definition strptime12 :: strptime where
  "strptime12 s =
     (if length s \<noteq> 12 then None
      else case (decimal 0 (take 4 s), decimal 0 (take 2 (drop 4 s)),
                 decimal 0 (take 2 (drop 6 s)), decimal 0 (take 2 (drop 8 s)),
                 decimal 0 (take 2 (drop 10 s))) of
        (Some y, Some mo, Some d, Some h, Some mi) \<Rightarrow>
          if 1 \<le> y \<and> 1 \<le> mo \<and> mo \<le> 12 \<and> 1 \<le> d \<and> d \<le> days_in_month y mo
             \<and> h \<le> 23 \<and> mi \<le> 59
          then Some \<lparr>year = y, month = mo, day = d, hour = h, minute = mi\<rparr>
          else None
      | _ \<Rightarrow> None)"

definition example_pyproj :: pyproj where
  "example_pyproj =
     \<lparr> proj_laea = (\<lambda>s x y. (x, y)), transform = (\<lambda>s x y. (x, y)),
       from_epsg4326 = (\<lambda>s x y. (x, y)), is_projdef = (\<lambda>s. s \<noteq> []),
       x_0 = (\<lambda>s. None), y_0 = (\<lambda>s. None) \<rparr>"

definition example_file :: hdf5_file where
  "example_file =
     \<lparr> data1 = [[Fin 5, NaN], [Fin (- 9999000), Fin (- 3)]],
       where_attrs = \<lparr> xsize = 2, ysize = 2, xscale = 2000, yscale = 2000,
         projdef = ''+proj=laea'', LL_lon = 0, LL_lat = 0 \<rparr> \<rparr>"

text \<open>
  A stand-in for the geodesic inverse on a small flat patch: azimuth 90 to a point further
  east, 180 to a point further south, 0 otherwise.
\<close>

definition example_geod :: geod where
  "example_geod lon1 lat1 lon2 lat2 =
     (if lon1 < lon2 then 90 else if lat2 < lat1 then 180 else 0, 0,
      111000 * (\<bar>lon2 - lon1\<bar> + \<bar>lat2 - lat1\<bar>))"

definition example_dataset :: dataset where
  "example_dataset =
     \<lparr> reflectivity = [[Fin 1, Fin 2, Fin 3], [Fin 4, Fin 5, Fin 6]],
       mask = [[1, 1, 1], [1, 1, 1]],
       lat_grid = [[1, 1, 1], [0, 0, 0]],
       lon_grid = [[0, 1, 2], [0, 1, 2]],
       attrs = \<lparr> xsize = 3, ysize = 2, xscale = 2000, yscale = 2000,
         projdef = ''+proj=laea'', LL_lon = 0, LL_lat = 0 \<rparr> \<rparr>"

text \<open>
  A rounding that is the identity except just below 360, where it gives 360, as the
  rounding to doubles does for the sum of 360 and a tiny negative remainder.
\<close>

definition round_up_below_360 :: "real \<Rightarrow> real" where
  "round_up_below_360 x = (if 359 < x \<and> x < 360 then 360 else x)"

text \<open>A raster writer that writes every file.\<close>

definition example_rio :: rio where
  "example_rio output_dir fn r = None"

text \<open>
  A network that fails at the first attempt, answers 503 at the second and delivers the
  archive from the third on; and a disk without files.
\<close>

definition flaky_net :: "int \<Rightarrow> response option" where
  "flaky_net attempt =
     (if attempt = 1 then None
      else if attempt = 2 then Some \<lparr>status_code = 503, content = ''unavailable''\<rparr>
      else Some \<lparr>status_code = 200, content = ''TAR''\<rparr>)"

definition empty_disk :: download_state where
  "empty_disk = \<lparr>files = Map.empty, write_calls = [], slept = 0\<rparr>"

definition member_1200 :: tar_member where
  "member_1200 = \<lparr> name = ''CIRRUS.REF_202506171200.hdf5'', extractfile = Some (ODIM example_file) \<rparr>"

definition member_1230 :: tar_member where
  "member_1230 = \<lparr> name = ''CIRRUS.REF_202506171230.hdf5'', extractfile = Some (ODIM example_file) \<rparr>"

definition member_1300 :: tar_member where
  "member_1300 = \<lparr> name = ''CIRRUS.REF_202506171300.hdf5'', extractfile = Some (ODIM example_file) \<rparr>"

definition member_1205 :: tar_member where
  "member_1205 = \<lparr> name = ''CIRRUS.REF_202506171205.hdf5'', extractfile = Some (ODIM example_file) \<rparr>"

definition member_1206 :: tar_member where
  "member_1206 = \<lparr> name = ''CIRRUS.REF_202506171206.hdf5'', extractfile = Some (ODIM example_file) \<rparr>"

definition member_malformed :: tar_member where
  "member_malformed = \<lparr> name = ''CIRRUS.REF-202506171200.hdf5'', extractfile = Some (ODIM example_file) \<rparr>"

definition member_not_HDF5 :: tar_member where
  "member_not_HDF5 = \<lparr> name = ''CIRRUS.REF_202506171400.hdf5'', extractfile = Some Not_HDF5 \<rparr>"


definition member_not_regular :: tar_member where
  "member_not_regular = \<lparr> name = ''CIRRUS.REF_202506171200.hdf5'', extractfile = None \<rparr>"

section \<open>Properties\<close>

subsection \<open>Decoded grid\<close>

lemma float_ne_iff: "float_ne v c \<longleftrightarrow> v \<noteq> Fin c"
  by (cases v) auto

text \<open>
  Claim C4. For every cell of a decoded grid: the validity mask is 1 exactly where the raw
  value differs from the no-data value -9999000 (exact comparison; a not-a-number differs)
  and 0 otherwise; where the mask is 0 the reflectivity is not-a-number; with
  noise-flooring, a valid negative raw value becomes exactly 0 and no reflectivity is
  left negative. Row \<open>i\<close> of the decoded grid is row \<open>n - 1 - i\<close> of the file (the
  decoder flips the row axis).
\<close>

theorem decoded_grid_cells:
  "i < length (data1 h) \<Longrightarrow> j < length (data1 h ! (length (data1 h) - Suc i)) \<Longrightarrow>
   (let raw = data1 h ! (length (data1 h) - Suc i) ! j;
        ds = odim_hdf5_to_dataset P nz h;
        m = mask ds ! i ! j;
        v = reflectivity ds ! i ! j
    in m = (if raw \<noteq> Fin fill_value then 1 else 0)
     \<and> (m = 0 \<or> m = 1)
     \<and> (m = 0 \<longrightarrow> v = NaN)
     \<and> (nz \<longrightarrow> m = 1 \<longrightarrow> (\<forall>r. raw = Fin r \<and> r < 0 \<longrightarrow> v = Fin 0))
     \<and> (nz \<longrightarrow> (\<forall>r. v = Fin r \<longrightarrow> 0 \<le> r))
     \<and> (m = 1 \<longrightarrow> \<not> (nz \<and> float_lt raw 0) \<longrightarrow> v = raw))"
proof -
  assume i: "i < length (data1 h)" and j: "j < length (data1 h ! (length (data1 h) - Suc i))"
  have r: "rev (data1 h) ! i = data1 h ! (length (data1 h) - Suc i)"
    using i by (simp add: rev_nth)
  show ?thesis
    using i j r
    by (cases "data1 h ! (length (data1 h) - Suc i) ! j")
       (auto simp: odim_hdf5_to_dataset_def Let_def float_ne_iff fill_value_def split: prod.splits)
qed

theorem decoded_grid_cells_witness:
  "mask (odim_hdf5_to_dataset example_pyproj True example_file) ! 0 ! 0 = 0
   \<and> reflectivity (odim_hdf5_to_dataset example_pyproj True example_file) ! 0 ! 0 = NaN
   \<and> mask (odim_hdf5_to_dataset example_pyproj True example_file) ! 0 ! 1 = 1
   \<and> reflectivity (odim_hdf5_to_dataset example_pyproj True example_file) ! 0 ! 1 = Fin 0"
  using decoded_grid_cells [of 0 example_file 0 example_pyproj True]
        decoded_grid_cells [of 0 example_file 1 example_pyproj True]
  by (simp add: example_file_def Let_def fill_value_def)

subsection \<open>Raster export\<close>

text \<open>
  Claim C7. The raster export replaces in two steps, in this order: every not-a-number
  reflectivity becomes 0, then every cell whose validity mask is 0 is overwritten with the
  missing value. So a cell with mask 0 ends up as the missing value, and a cell with
  another mask value that was not-a-number ends up as 0.
\<close>

theorem raster_two_step_replace:
  "i < length (mask ds) \<Longrightarrow> i < length (reflectivity ds) \<Longrightarrow>
   j < length (mask ds ! i) \<Longrightarrow> j < length (reflectivity ds ! i) \<Longrightarrow>
   (let m = mask ds ! i ! j;
        v = reflectivity ds ! i ! j;
        out = band (radar_timestep_ds_to_geotiff P ds missing_value bbox) ! i ! j
    in band (radar_timestep_ds_to_geotiff P ds missing_value bbox)
         = where_mask0 (mask ds) missing_value (fillna 0 (reflectivity ds))
     \<and> fillna 0 (reflectivity ds) ! i ! j = (if v = NaN then Fin 0 else v)
     \<and> out = (if m = 0 then Fin missing_value else fillna 0 (reflectivity ds) ! i ! j)
     \<and> (m = 0 \<longrightarrow> out = Fin missing_value)
     \<and> (m \<noteq> 0 \<longrightarrow> v = NaN \<longrightarrow> out = Fin 0)
     \<and> (m \<noteq> 0 \<longrightarrow> v \<noteq> NaN \<longrightarrow> out = v))"
  by (cases "reflectivity ds ! i ! j")
     (auto simp: radar_timestep_ds_to_geotiff_def Let_def fillna_def where_mask0_def)

theorem raster_two_step_replace_witness:
  "band (radar_timestep_ds_to_geotiff example_pyproj
           (odim_hdf5_to_dataset example_pyproj True example_file) (- 9999) None) ! 0 ! 0
     = Fin (- 9999)
   \<and> band (radar_timestep_ds_to_geotiff example_pyproj
           (odim_hdf5_to_dataset example_pyproj True example_file) (- 9999) None) ! 1 ! 1
     = Fin 0"
  using raster_two_step_replace [of 0 "odim_hdf5_to_dataset example_pyproj True example_file" 0
          example_pyproj "- 9999" None]
        raster_two_step_replace [of 1 "odim_hdf5_to_dataset example_pyproj True example_file" 1
          example_pyproj "- 9999" None]
  by (simp add: odim_hdf5_to_dataset_def example_file_def example_pyproj_def Let_def
        fill_value_def fillna_def where_mask0_def)

subsection \<open>The loop of the archive decoder\<close>



lemma member_error_retained:
  "member_error sp P timestep member = Some e \<Longrightarrow> retained_entry sp P timestep member = None"
  by (auto simp: member_error_def retained_entry_def split: option.splits if_splits sum.splits)

lemma dataset_loop_body_raises:
  "member_error sp P timestep member = Some e \<Longrightarrow>
   dataset_loop_body sp P timestep member s = Inl e"
  by (auto simp: dataset_loop_body_def member_error_def py_mod_def Let_def
           split: option.splits if_splits sum.splits)

lemma dataset_loop_body_outcome:
  "member_error sp P timestep member = None \<Longrightarrow>
   \<exists>s'. dataset_loop_body sp P timestep member s = Inr s'
      \<and> datasets s' = datasets s @ (case retained_entry sp P timestep member of
                                      None \<Rightarrow> [] | Some x \<Rightarrow> [x])
      \<and> set (stdout s) \<subseteq> set (stdout s')"
  by (auto simp: dataset_loop_body_def member_error_def retained_entry_def py_mod_def Let_def
           split: option.splits if_splits sum.splits)

lemma dataset_loop_result:
  "\<exists>s'. dataset_loop sp P timestep members s =
          (s', case List.map_filter (member_error sp P timestep) members of
                 [] \<Rightarrow> None | e # _ \<Rightarrow> Some e)
      \<and> datasets s' = datasets s @
           List.map_filter (retained_entry sp P timestep)
             (takeWhile (\<lambda>m. member_error sp P timestep m = None) members)
      \<and> set (stdout s) \<subseteq> set (stdout s')"
proof (induction members arbitrary: s)
  case Nil
  then show ?case by simp
next
  case (Cons member members)
  show ?case
  proof (cases "member_error sp P timestep member")
    case (Some e)
    from dataset_loop_body_raises [OF Some, of s] Some show ?thesis by simp
  next
    case None
    from dataset_loop_body_outcome [OF None, of s]
    obtain s1 where s1: "dataset_loop_body sp P timestep member s = Inr s1"
      "datasets s1 = datasets s @ (case retained_entry sp P timestep member of
                                      None \<Rightarrow> [] | Some x \<Rightarrow> [x])"
      "set (stdout s) \<subseteq> set (stdout s1)"
      by blast
    from Cons.IH [of s1]
    obtain s' where s': "dataset_loop sp P timestep members s1 =
          (s', case List.map_filter (member_error sp P timestep) members of
                 [] \<Rightarrow> None | e # _ \<Rightarrow> Some e)"
      "datasets s' = datasets s1 @
           List.map_filter (retained_entry sp P timestep)
             (takeWhile (\<lambda>m. member_error sp P timestep m = None) members)"
      "set (stdout s1) \<subseteq> set (stdout s')"
      by blast
    show ?thesis using None s1 s' by (auto split: option.splits)
  qed
qed

lemma map_filter_empty_iff:
  "List.map_filter f xs = [] \<longleftrightarrow> (\<forall>x \<in> set xs. f x = None)"
  by (induction xs) (auto split: option.splits)

lemma radar_tar_to_dataset_result:
  "snd (radar_tar_to_dataset sp P tar timestep) =
     (case List.map_filter (member_error sp P timestep) tar of
        e # _ \<Rightarrow> Inl e
      | [] \<Rightarrow>
          if List.map_filter (retained_entry sp P timestep) tar = []
          then Inl ValueError_no_valid_HDF5
          else (case xr_concat (List.map_filter (retained_entry sp P timestep) tar) of
                  Inl e \<Rightarrow> Inl e
                | Inr ds \<Rightarrow> Inr (sort_key (\<lambda>d. time_key (fst d)) ds)))"
proof -
  from dataset_loop_result [of sp P timestep tar "\<lparr>stdout = [], datasets = []\<rparr>"]
  obtain s' where s': "dataset_loop sp P timestep tar \<lparr>stdout = [], datasets = []\<rparr> =
          (s', case List.map_filter (member_error sp P timestep) tar of
                 [] \<Rightarrow> None | e # _ \<Rightarrow> Some e)"
      "datasets s' = List.map_filter (retained_entry sp P timestep)
             (takeWhile (\<lambda>m. member_error sp P timestep m = None) tar)"
    by auto
  show ?thesis
  proof (cases "List.map_filter (member_error sp P timestep) tar")
    case Nil
    then have "\<forall>m \<in> set tar. member_error sp P timestep m = None"
      by (simp add: map_filter_empty_iff)
    then have "takeWhile (\<lambda>m. member_error sp P timestep m = None) tar = tar"
      by (simp add: takeWhile_eq_all_conv)
    with s' Nil show ?thesis by (simp add: radar_tar_to_dataset_def split: sum.splits)
  next
    case (Cons e es)
    with s' show ?thesis by (simp add: radar_tar_to_dataset_def)
  qed
qed

lemma xr_concat_result: "xr_concat ds = Inr ds' \<Longrightarrow> ds' = ds"
  by (auto simp: xr_concat_def split: list.splits if_splits)


lemma name_1200:
  "endswith (name member_1200) ''.hdf5''"
  "member_timestamp strptime12 (name member_1200)
     = Some \<lparr>year = 2025, month = 6, day = 17, hour = 12, minute = 0\<rparr>"
  by (simp_all add: member_1200_def endswith_def member_timestamp_def strptime12_def digit_def
        days_in_month_def)

lemma decode_example:
  "decode_member example_pyproj (ODIM example_file)
     = Inr (odim_hdf5_to_dataset example_pyproj True example_file)"
  by (simp add: decode_member_def xr_Dataset_def same_shape_def odim_hdf5_to_dataset_def
        example_file_def example_pyproj_def arange_def upto_rec1 Let_def)

subsection \<open>The time-step filter\<close>

text \<open>
  Claim C1, as amended. For every archive member whose name ends in \<open>.hdf5\<close> and whose
  timestamp parses to \<open>ts\<close>, and every time step \<open>timestep \<noteq> 0\<close> in minutes: the archive
  decoder appends the member's grid, tagged with \<open>ts\<close> itself, if and only if
  \<open>(hour * 60 + minute) mod timestep = 0\<close>, the archive can extract the member's file and
  the file decodes; it passes over the member if and only if the filter rejects it or the
  member has no file to extract; and it raises, which ends the scan, if and only if the
  filter accepts the member and decoding its file raises, with the exception of the
  decoding. The raster exporter writes, passes over and raises in the same cases, and
  raises also what the raster writer raises. Nothing is rounded: a retained grid carries
  the parsed timestamp.
\<close>

theorem timestep_filter:
  "endswith (name member) ''.hdf5'' \<Longrightarrow> member_timestamp sp (name member) = Some ts \<Longrightarrow>
   timestep \<noteq> 0 \<Longrightarrow>
   (let passes = ((hour ts * 60 + minute ts) mod timestep = 0);
        geotiff_fn = str_join ''_'' (butlast (str_split CHR ''.'' (name member))) @ ''.tif''
    in ((\<exists>s'. dataset_loop_body sp P timestep member s = Inr s'
              \<and> datasets s' = datasets s @ [(ts, ds)])
          \<longleftrightarrow> passes \<and> (\<exists>f. extractfile member = Some f \<and> decode_member P f = Inr ds))
     \<and> ((\<exists>s'. dataset_loop_body sp P timestep member s = Inr s' \<and> datasets s' = datasets s)
          \<longleftrightarrow> \<not> passes \<or> extractfile member = None)
     \<and> (dataset_loop_body sp P timestep member s = Inl e
          \<longleftrightarrow> passes \<and> (\<exists>f. extractfile member = Some f \<and> decode_member P f = Inl e))
     \<and> (passes \<and> (\<exists>f. extractfile member = Some f \<and> decode_member P f = Inr ds)
               \<and> to_raster output_dir geotiff_fn
                    (radar_timestep_ds_to_geotiff P ds (- 9999) bbox) = None
          \<longrightarrow> (\<exists>g'. geotiff_loop_body sp P to_raster output_dir bbox timestep member g = Inr g'
              \<and> written g' = written g @
                   [(output_dir, geotiff_fn, radar_timestep_ds_to_geotiff P ds (- 9999) bbox)]))
     \<and> ((\<exists>g'. geotiff_loop_body sp P to_raster output_dir bbox timestep member g = Inr g'
              \<and> written g' \<noteq> written g)
          \<longrightarrow> passes \<and> (\<exists>f d. extractfile member = Some f \<and> decode_member P f = Inr d
                 \<and> to_raster output_dir geotiff_fn
                      (radar_timestep_ds_to_geotiff P d (- 9999) bbox) = None))
     \<and> ((\<exists>g'. geotiff_loop_body sp P to_raster output_dir bbox timestep member g = Inr g'
              \<and> written g' = written g)
          \<longleftrightarrow> \<not> passes \<or> extractfile member = None)
     \<and> (geotiff_loop_body sp P to_raster output_dir bbox timestep member g = Inl e
          \<longleftrightarrow> passes \<and> (\<exists>f. extractfile member = Some f
                 \<and> (decode_member P f = Inl e
                    \<or> (\<exists>d. decode_member P f = Inr d
                          \<and> to_raster output_dir geotiff_fn
                               (radar_timestep_ds_to_geotiff P d (- 9999) bbox) = Some e)))))"
  by (auto simp: dataset_loop_body_def geotiff_loop_body_def py_mod_def Let_def
           split: option.splits sum.splits)

theorem timestep_filter_witness:
  "endswith (name member_1200) ''.hdf5''
   \<and> member_timestamp strptime12 (name member_1200)
       = Some \<lparr>year = 2025, month = 6, day = 17, hour = 12, minute = 0\<rparr>
   \<and> (60::int) \<noteq> 0
   \<and> (\<exists>s'. dataset_loop_body strptime12 example_pyproj 60 member_1200
               \<lparr>stdout = [], datasets = []\<rparr> = Inr s'
          \<and> datasets s' =
              [(\<lparr>year = 2025, month = 6, day = 17, hour = 12, minute = 0\<rparr>,
                odim_hdf5_to_dataset example_pyproj True example_file)])"
proof -
  have nz: "(60::int) \<noteq> 0" by simp
  have d: "\<exists>f. extractfile member_1200 = Some f
             \<and> decode_member example_pyproj f
                 = Inr (odim_hdf5_to_dataset example_pyproj True example_file)"
    by (simp add: member_1200_def decode_example)
  from timestep_filter [OF name_1200 nz, where P = example_pyproj
         and s = "\<lparr>stdout = [], datasets = []\<rparr>"
         and ds = "odim_hdf5_to_dataset example_pyproj True example_file"
         and e = OSError and to_raster = example_rio and output_dir = "''out''" and bbox = None
         and g = "\<lparr>printed = [], written = [], tar_empty = True\<rparr>"] d
  have "\<exists>s'. dataset_loop_body strptime12 example_pyproj 60 member_1200
               \<lparr>stdout = [], datasets = []\<rparr> = Inr s'
          \<and> datasets s' =
              [(\<lparr>year = 2025, month = 6, day = 17, hour = 12, minute = 0\<rparr>,
                odim_hdf5_to_dataset example_pyproj True example_file)]"
    by (simp add: Let_def)
  with name_1200 nz show ?thesis by blast
qed

text \<open>
  The claim as stated fails in three places: a member that is not a regular file passes
  the filter (12:00 with a 60 minute step) and is not retained; a member whose bytes are
  not an HDF5 file passes the filter (14:00) and the decoder raises; and a step of 0
  minutes raises ZeroDivisionError at the first member with a timestamp.
\<close>

theorem timestep_filter_counterexample:
  "member_timestamp strptime12 (name member_not_regular)
       = Some \<lparr>year = 2025, month = 6, day = 17, hour = 12, minute = 0\<rparr>
   \<and> (12 * 60 + 0) mod (60::int) = 0
   \<and> dataset_loop_body strptime12 example_pyproj 60 member_not_regular
        \<lparr>stdout = [], datasets = []\<rparr>
       = Inr \<lparr>stdout = [Reading ''CIRRUS.REF_202506171200.hdf5''
                \<lparr>year = 2025, month = 6, day = 17, hour = 12, minute = 0\<rparr>], datasets = []\<rparr>
   \<and> radar_tar_to_dataset strptime12 example_pyproj [member_not_regular] 60
       = ([Reading ''CIRRUS.REF_202506171200.hdf5''
                \<lparr>year = 2025, month = 6, day = 17, hour = 12, minute = 0\<rparr>],
          Inl ValueError_no_valid_HDF5)
   \<and> member_timestamp strptime12 (name member_not_HDF5)
       = Some \<lparr>year = 2025, month = 6, day = 17, hour = 14, minute = 0\<rparr>
   \<and> (14 * 60 + 0) mod (60::int) = 0
   \<and> dataset_loop_body strptime12 example_pyproj 60 member_not_HDF5
        \<lparr>stdout = [], datasets = []\<rparr> = Inl OSError
   \<and> radar_tar_to_dataset strptime12 example_pyproj [member_1200] 0
       = ([], Inl ZeroDivisionError)"
  by (simp add: member_not_regular_def member_not_HDF5_def member_1200_def endswith_def
        member_timestamp_def strptime12_def digit_def days_in_month_def dataset_loop_body_def
        py_mod_def radar_tar_to_dataset_def decode_member_def)

subsection \<open>The time series\<close>

text \<open>
  Claim C3, as amended. The grids of a decoded time series are sorted ascending by their
  timestamps, and the series holds one entry for every retained member: the same entries
  with the same multiplicities, those of one timestamp in archive order. Nothing is
  removed, so two members with one timestamp give two entries.
\<close>

theorem time_series_sorted:
  "snd (radar_tar_to_dataset sp P tar timestep) = Inr series \<Longrightarrow>
   sorted (map (\<lambda>d. time_key (fst d)) series)
   \<and> mset series = mset (List.map_filter (retained_entry sp P timestep) tar)
   \<and> (\<forall>k. filter (\<lambda>d. time_key (fst d) = k) series
          = filter (\<lambda>d. time_key (fst d) = k)
              (List.map_filter (retained_entry sp P timestep) tar))"
proof -
  assume r: "snd (radar_tar_to_dataset sp P tar timestep) = Inr series"
  from r radar_tar_to_dataset_result [of sp P tar timestep]
  obtain ds where ds: "xr_concat (List.map_filter (retained_entry sp P timestep) tar) = Inr ds"
    "series = sort_key (\<lambda>d. time_key (fst d)) ds"
    by (auto split: list.splits if_splits sum.splits)
  from xr_concat_result [OF ds(1)]
  have s: "series = sort_key (\<lambda>d. time_key (fst d))
                      (List.map_filter (retained_entry sp P timestep) tar)"
    using ds(2) by simp
  show ?thesis unfolding s by (simp add: sort_key_stable)
qed

text \<open>An archive holding one member twice decodes to two entries of one timestamp.\<close>

theorem time_series_sorted_counterexample:
  "snd (radar_tar_to_dataset strptime12 example_pyproj [member_1200, member_1200] 60)
     = Inr [(\<lparr>year = 2025, month = 6, day = 17, hour = 12, minute = 0\<rparr>,
             odim_hdf5_to_dataset example_pyproj True example_file),
            (\<lparr>year = 2025, month = 6, day = 17, hour = 12, minute = 0\<rparr>,
             odim_hdf5_to_dataset example_pyproj True example_file)]"
  by (simp add: member_1200_def endswith_def member_timestamp_def
        strptime12_def digit_def days_in_month_def dataset_loop_body_def py_mod_def
        radar_tar_to_dataset_def time_key_def decode_example xr_concat_def same_shape_def
        list_all2_same)

theorem time_series_sorted_witness:
  "snd (radar_tar_to_dataset strptime12 example_pyproj [member_1300, member_1230, member_1200] 60)
     = Inr [(\<lparr>year = 2025, month = 6, day = 17, hour = 12, minute = 0\<rparr>,
             odim_hdf5_to_dataset example_pyproj True example_file),
            (\<lparr>year = 2025, month = 6, day = 17, hour = 13, minute = 0\<rparr>,
             odim_hdf5_to_dataset example_pyproj True example_file)]
   \<and> sorted (map (\<lambda>d. time_key (fst d))
        [(\<lparr>year = 2025, month = 6, day = 17, hour = 12, minute = 0\<rparr>,
             odim_hdf5_to_dataset example_pyproj True example_file),
            (\<lparr>year = 2025, month = 6, day = 17, hour = 13, minute = 0\<rparr>,
             odim_hdf5_to_dataset example_pyproj True example_file)])"
proof -
  have r: "snd (radar_tar_to_dataset strptime12 example_pyproj
                  [member_1300, member_1230, member_1200] 60)
     = Inr [(\<lparr>year = 2025, month = 6, day = 17, hour = 12, minute = 0\<rparr>,
             odim_hdf5_to_dataset example_pyproj True example_file),
            (\<lparr>year = 2025, month = 6, day = 17, hour = 13, minute = 0\<rparr>,
             odim_hdf5_to_dataset example_pyproj True example_file)]"
    by (simp add: member_1200_def member_1230_def member_1300_def endswith_def
        member_timestamp_def strptime12_def digit_def days_in_month_def dataset_loop_body_def
        py_mod_def radar_tar_to_dataset_def time_key_def decode_example xr_concat_def
        same_shape_def list_all2_same)
  from time_series_sorted [OF r] r show ?thesis by blast
qed

subsection \<open>Errors of the archive decoder\<close>














subsection \<open>Examples of the time-step filter\<close>

text \<open>
  With a step of 60 minutes the members of 12:00 and 13:00 are retained and the member of
  12:30 is not; with a step of 5 minutes the member of 12:05 is retained and the member of
  12:06 is not. An archive of one readable member and one member with a malformed name
  decodes, with a step of 60 minutes, to exactly one grid, and one warning is printed.
\<close>

theorem timestep_examples:
  "map fst (List.map_filter (retained_entry strptime12 example_pyproj 60)
              [member_1200, member_1230, member_1300])
     = [\<lparr>year = 2025, month = 6, day = 17, hour = 12, minute = 0\<rparr>,
        \<lparr>year = 2025, month = 6, day = 17, hour = 13, minute = 0\<rparr>]
   \<and> map fst (List.map_filter (retained_entry strptime12 example_pyproj 5)
              [member_1205, member_1206])
     = [\<lparr>year = 2025, month = 6, day = 17, hour = 12, minute = 5\<rparr>]
   \<and> radar_tar_to_dataset strptime12 example_pyproj [member_1200, member_malformed] 60
     = ([Reading ''CIRRUS.REF_202506171200.hdf5''
           \<lparr>year = 2025, month = 6, day = 17, hour = 12, minute = 0\<rparr>,
         Warn_timestamp ''CIRRUS.REF-202506171200.hdf5'', Concatening],
        Inr [(\<lparr>year = 2025, month = 6, day = 17, hour = 12, minute = 0\<rparr>,
              odim_hdf5_to_dataset example_pyproj True example_file)])"
  by (simp add: member_1200_def member_1230_def member_1300_def member_1205_def member_1206_def
        member_malformed_def retained_entry_def endswith_def member_timestamp_def strptime12_def
        digit_def days_in_month_def List.map_filter_def dataset_loop_body_def py_mod_def
        radar_tar_to_dataset_def decode_example xr_concat_def)

subsection \<open>Heading diagnostic\<close>

lemma float_mod_range: "0 \<le> float_mod x 360 \<and> float_mod x 360 < 360"
proof -
  have "of_int \<lfloor>x / 360\<rfloor> \<le> x / 360" "x / 360 < of_int \<lfloor>x / 360\<rfloor> + 1"
    by linarith+
  then show ?thesis by (simp add: float_mod_def field_simps)
qed

lemma float_mod_360: "float_mod (0 + 360) 360 = 0" "float_mod (90 + 360) 360 = 90"
  by (simp_all add: float_mod_def)

lemma compute_heading_length:
  "df \<noteq> [] \<Longrightarrow> \<exists>hs. compute_heading G df lon_name lat_name = Inr hs \<and> length hs = length df"
  by (cases df) (simp_all add: compute_heading_def pd_Series_def Let_def)

lemma compute_heading_nth:
  assumes "compute_heading G df lon_name lat_name = Inr hs" and "1 \<le> i" and "i < length df"
  shows "hs ! i = Some (float_mod (fst (G (lon_name (df ! (i - 1))) (lat_name (df ! (i - 1)))
                                          (lon_name (df ! i)) (lat_name (df ! i))) + 360) 360)"
proof -
  from assms(2) obtain k where k: "i = Suc k" by (cases i) auto
  with assms(3) have kl: "k < length df - 1" by simp
  have hs: "hs = None # map Some (map (\<lambda>a. float_mod (a + 360) 360)
       (map (\<lambda>(a, b, c, d). fst (G a b c d))
          (zip (butlast (map lon_name df)) (zip (butlast (map lat_name df))
             (zip (tl (map lon_name df)) (tl (map lat_name df)))))))"
    using assms(1) by (simp add: compute_heading_def pd_Series_def Let_def split: if_splits)
  show ?thesis
    using kl k assms(3) by (simp add: hs nth_butlast nth_tl)
qed

text \<open>
  Claim C6, as amended. For every sequence of \<open>n \<ge> 1\<close> points the heading diagnostic
  returns exactly \<open>n\<close> entries; entry 0 is undefined and, for every \<open>i \<ge> 1\<close>, entry \<open>i\<close> is
  the forward azimuth of the geodesic from point \<open>i - 1\<close> to point \<open>i\<close>, plus 360, modulo
  360, a value in \<open>[0, 360)\<close>. Where that azimuth is 0 (due north) the heading is 0, where
  it is 90 (due east) the heading is 90.
\<close>

theorem compute_heading_entries:
  "df \<noteq> [] \<Longrightarrow>
   (\<exists>hs. compute_heading G df lon_name lat_name = Inr hs
      \<and> length hs = length df
      \<and> hs ! 0 = None
      \<and> (\<forall>i. 1 \<le> i \<and> i < length df \<longrightarrow>
           (let az = fst (G (lon_name (df ! (i - 1))) (lat_name (df ! (i - 1)))
                          (lon_name (df ! i)) (lat_name (df ! i)))
            in hs ! i = Some (float_mod (az + 360) 360)
               \<and> 0 \<le> float_mod (az + 360) 360 \<and> float_mod (az + 360) 360 < 360
               \<and> (az = 0 \<longrightarrow> hs ! i = Some 0)
               \<and> (az = 90 \<longrightarrow> hs ! i = Some 90))))"
proof -
  assume ne: "df \<noteq> []"
  from compute_heading_length [OF ne, of G lon_name lat_name]
  obtain hs where hs: "compute_heading G df lon_name lat_name = Inr hs" "length hs = length df"
    by blast
  have h0: "hs ! 0 = None"
    using hs(1) by (simp add: compute_heading_def pd_Series_def Let_def split: if_splits) auto
  have "\<forall>i. 1 \<le> i \<and> i < length df \<longrightarrow>
           (let az = fst (G (lon_name (df ! (i - 1))) (lat_name (df ! (i - 1)))
                          (lon_name (df ! i)) (lat_name (df ! i)))
            in hs ! i = Some (float_mod (az + 360) 360)
               \<and> 0 \<le> float_mod (az + 360) 360 \<and> float_mod (az + 360) 360 < 360
               \<and> (az = 0 \<longrightarrow> hs ! i = Some 0)
               \<and> (az = 90 \<longrightarrow> hs ! i = Some 90))"
    using compute_heading_nth [OF hs(1)] float_mod_range float_mod_360
    by (auto simp: Let_def)
  with hs h0 show ?thesis by blast
qed


theorem compute_heading_entries_witness:
  "[(0::real, 0::real), (1, 0), (2, 0)] \<noteq> []
   \<and> compute_heading example_geod [(0::real, 0::real), (1, 0), (2, 0)] snd fst
       = Inr [None, Some 0, Some 0]
   \<and> compute_heading example_geod [(0::real, 0::real), (0, 1)] snd fst = Inr [None, Some 90]"
proof -
  have ne: "[(0::real, 0::real), (1, 0), (2, 0)] \<noteq> []" by simp
  from compute_heading_entries [OF ne, of example_geod snd fst]
  show ?thesis
    by (simp add: compute_heading_def pd_Series_def example_geod_def float_mod_def)
qed

text \<open>On the empty sequence the diagnostic raises: one value for an index of length 0.\<close>

theorem compute_heading_entries_counterexample:
  "compute_heading example_geod ([] :: (real \<times> real) list) snd fst = Inl ValueError"
  by (simp add: compute_heading_def pd_Series_def)

subsection \<open>Bird tracks\<close>

text \<open>
  Claim C5 says that \<open>data\<close> produces the table of the track's points with a heading per
  point. The code raises TypeError on every track: it calls the list \<open>points\<close>.
\<close>

theorem data_raises: "data G self = Inl TypeError"
  by (simp add: data_def call_list_def)

subsection \<open>Cone extraction\<close>

lemma np_where_sets:
  "np_where m = (iy, ix) \<Longrightarrow>
   set iy = fst ` {(i, j). i < length m \<and> j < length (m ! i) \<and> m ! i ! j}
   \<and> set ix = snd ` {(i, j). i < length m \<and> j < length (m ! i) \<and> m ! i ! j}
   \<and> (length iy = 0 \<longleftrightarrow> {(i, j). i < length m \<and> j < length (m ! i) \<and> m ! i ! j} = {})"
proof -
  let ?cells = "[(i, j). i \<leftarrow> [0..<length m], j \<leftarrow> [0..<length (m ! i)], m ! i ! j]"
  assume "np_where m = (iy, ix)"
  then have iy: "iy = map fst ?cells" and ix: "ix = map snd ?cells"
    by (simp_all add: np_where_def Let_def)
  have c: "set ?cells = {(i, j). i < length m \<and> j < length (m ! i) \<and> m ! i ! j}"
    by auto
  have "length iy = 0 \<longleftrightarrow> set ?cells = {}"
    unfolding iy by (simp del: set_concat)
  with c show ?thesis unfolding iy ix by (simp del: set_concat)
qed

lemma mask_bbox_cells:
  fixes lat0 lon0 R :: real
  assumes "shape_ok ds ny nx"
  defines "mb \<equiv> map (\<lambda>(las, los). map (\<lambda>(la, lo). in_bbox lat0 lon0 R la lo) (zip las los))
                        (zip (lat_grid ds) (lon_grid ds))"
  shows "{(i, j). i < length mb \<and> j < length (mb ! i) \<and> mb ! i ! j}
         = {(i, j). i < ny \<and> j < nx
              \<and> in_bbox lat0 lon0 R (lat_grid ds ! i ! j) (lon_grid ds ! i ! j)}"
proof -
  have len: "length mb = ny" using assms(1) by (simp add: mb_def shape_ok_def)
  have row: "\<And>i. i < ny \<Longrightarrow> length (lat_grid ds ! i) = nx \<and> length (lon_grid ds ! i) = nx"
    using assms(1) by (simp add: shape_ok_def list_all_length)
  have rowlen: "\<And>i. i < ny \<Longrightarrow> length (mb ! i) = nx"
    using assms(1) row by (simp add: mb_def shape_ok_def)
  have cell: "\<And>i j. i < ny \<Longrightarrow> j < nx \<Longrightarrow>
      mb ! i ! j = in_bbox lat0 lon0 R (lat_grid ds ! i ! j) (lon_grid ds ! i ! j)"
    using assms(1) row by (simp add: mb_def shape_ok_def)
  show ?thesis using len rowlen cell by auto
qed

lemma bbox_span_cases:
  fixes lat0 lon0 R :: real
  assumes "shape_ok ds ny nx"
  defines "S \<equiv> {(i, j). i < ny \<and> j < nx
              \<and> in_bbox lat0 lon0 R (lat_grid ds ! i ! j) (lon_grid ds ! i ! j)}"
  shows "bbox_span ds lat0 lon0 R =
           (if S = {} then Inl ValueError
            else Inr (Min (fst ` S), Max (fst ` S), Min (snd ` S), Max (snd ` S)))"
proof -
  let ?mb = "map (\<lambda>(las, los). map (\<lambda>(la, lo). in_bbox lat0 lon0 R la lo) (zip las los))
                        (zip (lat_grid ds) (lon_grid ds))"
  obtain iy ix where w: "np_where ?mb = (iy, ix)" by (cases "np_where ?mb")
  have eq: "{(i, j). i < length ?mb \<and> j < length (?mb ! i) \<and> ?mb ! i ! j} = S"
    unfolding S_def by (rule mask_bbox_cells [OF assms(1)])
  note n = np_where_sets [OF w, unfolded eq]
  have "set iy = fst ` S" "set ix = snd ` S" "length iy = 0 \<longleftrightarrow> S = {}"
    using n by blast+
  with w show ?thesis by (simp add: bbox_span_def Let_def)
qed

lemma span_bounds:
  fixes S :: "(nat \<times> nat) set"
  assumes "S \<subseteq> {..<ny} \<times> {..<nx}" and "S \<noteq> {}"
  shows "Min (fst ` S) \<le> Max (fst ` S)" "Max (fst ` S) < ny"
    "Min (snd ` S) \<le> Max (snd ` S)" "Max (snd ` S) < nx"
    "\<forall>(i, j) \<in> S. Min (fst ` S) \<le> i \<and> i \<le> Max (fst ` S)
                  \<and> Min (snd ` S) \<le> j \<and> j \<le> Max (snd ` S)"
    "\<exists>j. (Min (fst ` S), j) \<in> S" "\<exists>j. (Max (fst ` S), j) \<in> S"
    "\<exists>i. (i, Min (snd ` S)) \<in> S" "\<exists>i. (i, Max (snd ` S)) \<in> S"
proof -
  have fin: "finite S" using assms(1) by (rule finite_subset) simp
  then have f1: "finite (fst ` S)" and f2: "finite (snd ` S)" by simp_all
  have n1: "fst ` S \<noteq> {}" and n2: "snd ` S \<noteq> {}" using assms(2) by simp_all
  show "Min (fst ` S) \<le> Max (fst ` S)" using f1 n1 by (simp add: Min_le_iff)
  show "Min (snd ` S) \<le> Max (snd ` S)" using f2 n2 by (simp add: Min_le_iff)
  have "Max (fst ` S) \<in> fst ` S" using f1 n1 by (rule Max_in)
  then show "Max (fst ` S) < ny" "\<exists>j. (Max (fst ` S), j) \<in> S" using assms(1) by auto
  have "Max (snd ` S) \<in> snd ` S" using f2 n2 by (rule Max_in)
  then show "Max (snd ` S) < nx" "\<exists>i. (i, Max (snd ` S)) \<in> S" using assms(1) by auto
  have "Min (fst ` S) \<in> fst ` S" using f1 n1 by (rule Min_in)
  then show "\<exists>j. (Min (fst ` S), j) \<in> S" by auto
  have "Min (snd ` S) \<in> snd ` S" using f2 n2 by (rule Min_in)
  then show "\<exists>i. (i, Min (snd ` S)) \<in> S" by auto
  show "\<forall>(i, j) \<in> S. Min (fst ` S) \<le> i \<and> i \<le> Max (fst ` S)
                  \<and> Min (snd ` S) \<le> j \<and> j \<le> Max (snd ` S)"
  proof (clarify, intro conjI)
    fix i j assume m: "(i, j) \<in> S"
    then have "i \<in> fst ` S" "j \<in> snd ` S" by force+
    then show "Min (fst ` S) \<le> i" "i \<le> Max (fst ` S)" "Min (snd ` S) \<le> j"
      "j \<le> Max (snd ` S)"
      using f1 f2 by simp_all
  qed
qed

lemma isel_length:
  "y_min \<le> y_max \<Longrightarrow> y_max < length A \<Longrightarrow>
   length (isel y_min y_max x_min x_max A) = Suc (y_max - y_min)"
  by (simp add: isel_def)

lemma isel_row:
  "y_min \<le> y_max \<Longrightarrow> y_max < length A \<Longrightarrow> a \<le> y_max - y_min \<Longrightarrow>
   isel y_min y_max x_min x_max A ! a = take (Suc x_max - x_min) (drop x_min (A ! (y_min + a)))"
proof -
  assume "y_min \<le> y_max" "y_max < length A" "a \<le> y_max - y_min"
  then have "a < Suc y_max - y_min" "y_min + a < length A" "a < length A - y_min" by arith+
  then show ?thesis by (simp add: isel_def)
qed

lemma isel_nth:
  "y_min \<le> y_max \<Longrightarrow> y_max < length A \<Longrightarrow> a \<le> y_max - y_min \<Longrightarrow>
   x_min \<le> x_max \<Longrightarrow> x_max < length (A ! (y_min + a)) \<Longrightarrow> b \<le> x_max - x_min \<Longrightarrow>
   length (isel y_min y_max x_min x_max A ! a) = Suc (x_max - x_min)
   \<and> isel y_min y_max x_min x_max A ! a ! b = A ! (y_min + a) ! (x_min + b)"
proof -
  assume y: "y_min \<le> y_max" "y_max < length A" "a \<le> y_max - y_min"
    and x: "x_min \<le> x_max" "x_max < length (A ! (y_min + a))" "b \<le> x_max - x_min"
  from x have "b < Suc x_max - x_min" "x_min + b < length (A ! (y_min + a))"
    "Suc x_max - x_min \<le> length (A ! (y_min + a)) - x_min" by arith+
  then show ?thesis using x by (simp add: isel_row [OF y] min_def)
qed

lemma c_fmod_range:
  "(0 \<le> x \<longrightarrow> 0 \<le> c_fmod x 360 \<and> c_fmod x 360 < 360)
   \<and> (x < 0 \<longrightarrow> - 360 < c_fmod x 360 \<and> c_fmod x 360 \<le> 0)"
proof -
  define lo hi :: real where "lo = of_int \<lfloor>x / 360\<rfloor>" and "hi = of_int \<lceil>x / 360\<rceil>"
  have "lo \<le> x / 360" "x / 360 < lo + 1" "x / 360 \<le> hi" "hi < x / 360 + 1"
    unfolding lo_def hi_def by linarith+
  then have b: "360 * lo \<le> x" "x < 360 * lo + 360" "x \<le> 360 * hi" "360 * hi < x + 360"
    by simp_all
  have "c_fmod x 360 = (if 0 \<le> x then x - 360 * lo else x - 360 * hi)"
    by (simp add: c_fmod_def lo_def hi_def)
  with b show ?thesis by auto
qed



text \<open>
  The bound 180 is reached when the sum of 360 and a small negative remainder rounds to
  360.
\<close>

lemma angle_diff_reaches_180:
  "rounding round_up_below_360 \<and> angle_diff round_up_below_360 (- 1 / 4) 180 = 180"
proof -
  have "\<lceil>- (1 / 1440) :: real\<rceil> = 0" by (simp add: ceiling_eq_iff)
  then show ?thesis
    by (simp add: rounding_def round_up_below_360_def angle_diff_def float_rem_def c_fmod_def)
qed

text \<open>Without rounding the remainder is the one of the heading diagnostic.\<close>

lemma float_rem_exact: "float_rem (\<lambda>x. x) x 360 = float_mod x 360"
proof (cases "0 \<le> x / 360")
  case True
  then have "0 \<le> c_fmod x 360" using c_fmod_range [of x] by simp
  with True show ?thesis by (simp add: float_rem_def c_fmod_def float_mod_def Let_def)
next
  case False
  show ?thesis
  proof (cases "c_fmod x 360 = 0")
    case True
    with False have "x / 360 = of_int \<lceil>x / 360\<rceil>" by (simp add: c_fmod_def)
    then have "\<lfloor>x / 360\<rfloor> = \<lceil>x / 360\<rceil>" by (metis floor_of_int)
    with True False show ?thesis by (simp add: float_rem_def c_fmod_def float_mod_def Let_def)
  next
    case nz: False
    with False have "x / 360 \<noteq> of_int \<lceil>x / 360\<rceil>" by (auto simp: c_fmod_def)
    then have "\<lceil>x / 360\<rceil> = \<lfloor>x / 360\<rfloor> + 1"
      by (metis ceiling_altdef of_int_floor_cancel)
    moreover from False nz have "c_fmod x 360 < 0" using c_fmod_range [of x] by auto
    ultimately show ?thesis using False nz
      by (simp add: float_rem_def c_fmod_def float_mod_def Let_def algebra_simps)
  qed
qed

lemma selected_subset:
  "{(i, j). i < ny \<and> j < nx \<and> P i j} \<subseteq> {..<ny} \<times> {..<nx}"
  by auto

lemma bbox_span_in_range:
  fixes lat0 lon0 R :: real
  assumes "shape_ok ds ny nx" and "bbox_span ds lat0 lon0 R = Inr (y_min, y_max, x_min, x_max)"
  shows "y_min \<le> y_max \<and> y_max < ny \<and> x_min \<le> x_max \<and> x_max < nx"
proof -
  let ?S = "{(i, j). i < ny \<and> j < nx
              \<and> in_bbox lat0 lon0 R (lat_grid ds ! i ! j) (lon_grid ds ! i ! j)}"
  from assms(2) bbox_span_cases [OF assms(1), of lat0 lon0 R]
  have ne: "?S \<noteq> {}" and v: "y_min = Min (fst ` ?S)" "y_max = Max (fst ` ?S)"
    "x_min = Min (snd ` ?S)" "x_max = Max (snd ` ?S)"
    by (auto split: if_splits)
  from span_bounds(1-4) [OF selected_subset ne] show ?thesis unfolding v by blast
qed

lemma extract_cell:
  fixes lat0 lon0 R heading O_angle :: real and rnd :: "real \<Rightarrow> real"
  assumes ok: "shape_ok ds ny nx"
    and span: "bbox_span ds lat0 lon0 R = Inr (y_min, y_max, x_min, x_max)"
    and a: "a \<le> y_max - y_min" and b: "b \<le> x_max - x_min"
  shows "\<exists>out. extract_reflectivity_cone rnd G ds lat0 lon0 heading O_angle R = Inr out
     \<and> length out = Suc (y_max - y_min) \<and> length (out ! a) = Suc (x_max - x_min)
     \<and> out ! a ! b =
         (case G lon0 lat0 (lon_grid ds ! (y_min + a) ! (x_min + b))
                 (lat_grid ds ! (y_min + a) ! (x_min + b)) of
            (az, back, distance) \<Rightarrow>
              if \<bar>angle_diff rnd az heading\<bar> \<le> O_angle / 2 \<and> distance \<le> R * 1000
              then reflectivity ds ! (y_min + a) ! (x_min + b) else NaN)"
proof -
  from bbox_span_in_range [OF ok span]
  have r: "y_min \<le> y_max" "y_max < ny" "x_min \<le> x_max" "x_max < nx" by simp_all
  from r a have ya: "y_min + a < ny" by arith
  have len: "length (reflectivity ds) = ny" "length (lat_grid ds) = ny"
    "length (lon_grid ds) = ny"
    using ok by (simp_all add: shape_ok_def)
  have rows: "length (reflectivity ds ! (y_min + a)) = nx"
    "length (lat_grid ds ! (y_min + a)) = nx" "length (lon_grid ds ! (y_min + a)) = nx"
    using ok ya by (simp_all add: shape_ok_def list_all_length)
  let ?lats = "isel y_min y_max x_min x_max (lat_grid ds)"
  let ?lons = "isel y_min y_max x_min x_max (lon_grid ds)"
  let ?refl = "isel y_min y_max x_min x_max (reflectivity ds)"
  have l: "length ?lats = Suc (y_max - y_min)" "length ?lons = Suc (y_max - y_min)"
    "length ?refl = Suc (y_max - y_min)"
    using r len by (simp_all add: isel_length)
  have c1: "length (?lats ! a) = Suc (x_max - x_min)
            \<and> ?lats ! a ! b = lat_grid ds ! (y_min + a) ! (x_min + b)"
    using r len rows a b by (intro isel_nth) simp_all
  have c2: "length (?lons ! a) = Suc (x_max - x_min)
            \<and> ?lons ! a ! b = lon_grid ds ! (y_min + a) ! (x_min + b)"
    using r len rows a b by (intro isel_nth) simp_all
  have c3: "length (?refl ! a) = Suc (x_max - x_min)
            \<and> ?refl ! a ! b = reflectivity ds ! (y_min + a) ! (x_min + b)"
    using r len rows a b by (intro isel_nth) simp_all
  have al: "a < Suc (y_max - y_min)" and bl: "b < Suc (x_max - x_min)" using a b by simp_all
  show ?thesis
    using l c1 c2 c3 al bl
    by (simp add: extract_reflectivity_cone_def span Let_def split: prod.splits)
qed

lemma in_bbox_abs:
  "cos (deg2rad lat0) \<noteq> 0 \<Longrightarrow>
   in_bbox lat0 lon0 R la lo \<longleftrightarrow>
     \<bar>la - lat0\<bar> \<le> R / 111 \<and> \<bar>lo - lon0\<bar> \<le> R / (111 * cos (deg2rad lat0))"
proof -
  assume c: "cos (deg2rad lat0) \<noteq> 0"
  define dlat where "dlat = R / 111"
  define dlon where "dlon = R / (111 * cos (deg2rad lat0))"
  have "in_bbox lat0 lon0 R la lo \<longleftrightarrow>
          lat0 - dlat \<le> la \<and> la \<le> lat0 + dlat \<and> lon0 - dlon \<le> lo \<and> lo \<le> lon0 + dlon"
    using c by (simp add: in_bbox_def Let_def dlat_def dlon_def)
  also have "\<dots> \<longleftrightarrow> \<bar>la - lat0\<bar> \<le> dlat \<and> \<bar>lo - lon0\<bar> \<le> dlon"
    by (auto simp: abs_le_iff)
  finally show ?thesis by (simp only: dlat_def dlon_def)
qed



lemma example_mask:
  "map (\<lambda>(las, los). map (\<lambda>(la, lo). in_bbox 0 0 150 la lo) (zip las los))
     (zip (lat_grid example_dataset) (lon_grid example_dataset))
   = [[True, True, False], [True, True, False]]"
  by (simp add: example_dataset_def in_bbox_def deg2rad_def Let_def)

lemma example_where:
  "np_where [[True, True, False], [True, True, False]] = ([0, 0, 1, 1], [0, 1, 0, 1])"
  by code_simp

lemma example_span: "bbox_span example_dataset 0 0 150 = Inr (0, 1, 0, 1)"
  by (simp add: bbox_span_def example_mask example_where)

lemma example_shape: "shape_ok example_dataset 2 3"
  by (simp add: shape_ok_def example_dataset_def)



text \<open>
  Claim C9. Cone extraction raises (a ValueError, and nothing else) if and only if no grid
  cell lies in the bounding box around the apex, which extends \<open>R / 111\<close> degrees in
  latitude and \<open>R / (111 * cos lat0)\<close> degrees in longitude. When a cell lies in the box,
  the grid is cropped to the rows \<open>y_min..y_max\<close> and columns \<open>x_min..x_max\<close>, the
  smallest span that holds every selected cell: each of the four bounds is reached by a
  selected cell, the result has the shape of the span, and its cell \<open>(a, b)\<close> is the
  cell \<open>(y_min + a, x_min + b)\<close> of the grid, kept or masked by the cone.
\<close>

theorem bbox_error_iff_empty:
  "shape_ok ds ny nx \<Longrightarrow>
   (extract_reflectivity_cone rnd G ds lat0 lon0 heading O_angle R = Inl ValueError
      \<longleftrightarrow> \<not> (\<exists>i<ny. \<exists>j<nx. in_bbox lat0 lon0 R (lat_grid ds ! i ! j) (lon_grid ds ! i ! j)))
   \<and> (\<forall>e. extract_reflectivity_cone rnd G ds lat0 lon0 heading O_angle R = Inl e
          \<longrightarrow> e = ValueError)
   \<and> (cos (deg2rad lat0) \<noteq> 0 \<longrightarrow>
        (\<forall>la lo. in_bbox lat0 lon0 R la lo \<longleftrightarrow>
           \<bar>la - lat0\<bar> \<le> R / 111 \<and> \<bar>lo - lon0\<bar> \<le> R / (111 * cos (deg2rad lat0))))
   \<and> ((\<exists>i<ny. \<exists>j<nx. in_bbox lat0 lon0 R (lat_grid ds ! i ! j) (lon_grid ds ! i ! j)) \<longrightarrow>
        (\<exists>y_min y_max x_min x_max out.
           bbox_span ds lat0 lon0 R = Inr (y_min, y_max, x_min, x_max)
           \<and> extract_reflectivity_cone rnd G ds lat0 lon0 heading O_angle R = Inr out
           \<and> y_min \<le> y_max \<and> y_max < ny \<and> x_min \<le> x_max \<and> x_max < nx
           \<and> (\<forall>i<ny. \<forall>j<nx.
                 in_bbox lat0 lon0 R (lat_grid ds ! i ! j) (lon_grid ds ! i ! j) \<longrightarrow>
                 y_min \<le> i \<and> i \<le> y_max \<and> x_min \<le> j \<and> j \<le> x_max)
           \<and> (\<exists>j<nx. in_bbox lat0 lon0 R (lat_grid ds ! y_min ! j) (lon_grid ds ! y_min ! j))
           \<and> (\<exists>j<nx. in_bbox lat0 lon0 R (lat_grid ds ! y_max ! j) (lon_grid ds ! y_max ! j))
           \<and> (\<exists>i<ny. in_bbox lat0 lon0 R (lat_grid ds ! i ! x_min) (lon_grid ds ! i ! x_min))
           \<and> (\<exists>i<ny. in_bbox lat0 lon0 R (lat_grid ds ! i ! x_max) (lon_grid ds ! i ! x_max))
           \<and> length out = Suc (y_max - y_min)
           \<and> (\<forall>a\<le>y_max - y_min. length (out ! a) = Suc (x_max - x_min))
           \<and> (\<forall>a\<le>y_max - y_min. \<forall>b\<le>x_max - x_min.
                 out ! a ! b =
                   (case G lon0 lat0 (lon_grid ds ! (y_min + a) ! (x_min + b))
                           (lat_grid ds ! (y_min + a) ! (x_min + b)) of
                      (az, back, distance) \<Rightarrow>
                        if \<bar>angle_diff rnd az heading\<bar> \<le> O_angle / 2
                           \<and> distance \<le> R * 1000
                        then reflectivity ds ! (y_min + a) ! (x_min + b) else NaN))))"
proof -
  assume ok: "shape_ok ds ny nx"
  let ?S = "{(i, j). i < ny \<and> j < nx
              \<and> in_bbox lat0 lon0 R (lat_grid ds ! i ! j) (lon_grid ds ! i ! j)}"
  let ?cell = "\<exists>i<ny. \<exists>j<nx. in_bbox lat0 lon0 R (lat_grid ds ! i ! j) (lon_grid ds ! i ! j)"
  have S_iff: "?S \<noteq> {} \<longleftrightarrow> ?cell" by auto
  note span = bbox_span_cases [OF ok, of lat0 lon0 R]
  have abs: "cos (deg2rad lat0) \<noteq> 0 \<longrightarrow>
        (\<forall>la lo. in_bbox lat0 lon0 R la lo \<longleftrightarrow>
           \<bar>la - lat0\<bar> \<le> R / 111 \<and> \<bar>lo - lon0\<bar> \<le> R / (111 * cos (deg2rad lat0)))"
    by (simp add: in_bbox_abs)
  show ?thesis
  proof (cases "?S = {}")
    case True
    with span have "bbox_span ds lat0 lon0 R = Inl ValueError" by simp
    then have "extract_reflectivity_cone rnd G ds lat0 lon0 heading O_angle R = Inl ValueError"
      by (simp add: extract_reflectivity_cone_def)
    with True S_iff abs show ?thesis by simp
  next
    case False
    define y_min where "y_min = Min (fst ` ?S)"
    define y_max where "y_max = Max (fst ` ?S)"
    define x_min where "x_min = Min (snd ` ?S)"
    define x_max where "x_max = Max (snd ` ?S)"
    from False span have sp: "bbox_span ds lat0 lon0 R = Inr (y_min, y_max, x_min, x_max)"
      by (simp add: y_min_def y_max_def x_min_def x_max_def)
    note b = span_bounds [OF selected_subset False, folded y_min_def y_max_def x_min_def x_max_def]
    have z: "(0::nat) \<le> y_max - y_min" "(0::nat) \<le> x_max - x_min" by simp_all
    from extract_cell [OF ok sp z, of rnd G heading O_angle]
    obtain out where out: "extract_reflectivity_cone rnd G ds lat0 lon0 heading O_angle R = Inr out"
      "length out = Suc (y_max - y_min)" by blast
    have rows: "\<forall>a\<le>y_max - y_min. length (out ! a) = Suc (x_max - x_min)"
    proof (intro allI impI)
      fix a assume "a \<le> y_max - y_min"
      from extract_cell [OF ok sp this z(2), of rnd G heading O_angle] out(1)
      show "length (out ! a) = Suc (x_max - x_min)" by auto
    qed
    have cells: "\<forall>a\<le>y_max - y_min. \<forall>b\<le>x_max - x_min.
                 out ! a ! b =
                   (case G lon0 lat0 (lon_grid ds ! (y_min + a) ! (x_min + b))
                           (lat_grid ds ! (y_min + a) ! (x_min + b)) of
                      (az, back, distance) \<Rightarrow>
                        if \<bar>angle_diff rnd az heading\<bar> \<le> O_angle / 2
                           \<and> distance \<le> R * 1000
                        then reflectivity ds ! (y_min + a) ! (x_min + b) else NaN)"
    proof (intro allI impI)
      fix a b assume "a \<le> y_max - y_min" "b \<le> x_max - x_min"
      from extract_cell [OF ok sp this, of rnd G heading O_angle] out(1)
      show "out ! a ! b =
                   (case G lon0 lat0 (lon_grid ds ! (y_min + a) ! (x_min + b))
                           (lat_grid ds ! (y_min + a) ! (x_min + b)) of
                      (az, back, distance) \<Rightarrow>
                        if \<bar>angle_diff rnd az heading\<bar> \<le> O_angle / 2
                           \<and> distance \<le> R * 1000
                        then reflectivity ds ! (y_min + a) ! (x_min + b) else NaN)"
        by auto
    qed
    have encl: "\<forall>i<ny. \<forall>j<nx.
                 in_bbox lat0 lon0 R (lat_grid ds ! i ! j) (lon_grid ds ! i ! j) \<longrightarrow>
                 y_min \<le> i \<and> i \<le> y_max \<and> x_min \<le> j \<and> j \<le> x_max"
      using b(5) by auto
    have m1: "\<exists>j<nx. in_bbox lat0 lon0 R (lat_grid ds ! y_min ! j) (lon_grid ds ! y_min ! j)"
      using b(6) by auto
    have m2: "\<exists>j<nx. in_bbox lat0 lon0 R (lat_grid ds ! y_max ! j) (lon_grid ds ! y_max ! j)"
      using b(7) by auto
    have m3: "\<exists>i<ny. in_bbox lat0 lon0 R (lat_grid ds ! i ! x_min) (lon_grid ds ! i ! x_min)"
      using b(8) by auto
    have m4: "\<exists>i<ny. in_bbox lat0 lon0 R (lat_grid ds ! i ! x_max) (lon_grid ds ! i ! x_max)"
      using b(9) by auto
    have ex: "\<exists>y_min y_max x_min x_max out.
           bbox_span ds lat0 lon0 R = Inr (y_min, y_max, x_min, x_max)
           \<and> extract_reflectivity_cone rnd G ds lat0 lon0 heading O_angle R = Inr out
           \<and> y_min \<le> y_max \<and> y_max < ny \<and> x_min \<le> x_max \<and> x_max < nx
           \<and> (\<forall>i<ny. \<forall>j<nx.
                 in_bbox lat0 lon0 R (lat_grid ds ! i ! j) (lon_grid ds ! i ! j) \<longrightarrow>
                 y_min \<le> i \<and> i \<le> y_max \<and> x_min \<le> j \<and> j \<le> x_max)
           \<and> (\<exists>j<nx. in_bbox lat0 lon0 R (lat_grid ds ! y_min ! j) (lon_grid ds ! y_min ! j))
           \<and> (\<exists>j<nx. in_bbox lat0 lon0 R (lat_grid ds ! y_max ! j) (lon_grid ds ! y_max ! j))
           \<and> (\<exists>i<ny. in_bbox lat0 lon0 R (lat_grid ds ! i ! x_min) (lon_grid ds ! i ! x_min))
           \<and> (\<exists>i<ny. in_bbox lat0 lon0 R (lat_grid ds ! i ! x_max) (lon_grid ds ! i ! x_max))
           \<and> length out = Suc (y_max - y_min)
           \<and> (\<forall>a\<le>y_max - y_min. length (out ! a) = Suc (x_max - x_min))
           \<and> (\<forall>a\<le>y_max - y_min. \<forall>b\<le>x_max - x_min.
                 out ! a ! b =
                   (case G lon0 lat0 (lon_grid ds ! (y_min + a) ! (x_min + b))
                           (lat_grid ds ! (y_min + a) ! (x_min + b)) of
                      (az, back, distance) \<Rightarrow>
                        if \<bar>angle_diff rnd az heading\<bar> \<le> O_angle / 2
                           \<and> distance \<le> R * 1000
                        then reflectivity ds ! (y_min + a) ! (x_min + b) else NaN))"
      using sp out b(1-4) encl m1 m2 m3 m4 rows cells by blast
    from False S_iff have c: "?cell" by simp
    show ?thesis
      using out(1) c abs ex by simp
  qed
qed

lemma example_far: "bbox_span example_dataset 50 0 150 = Inl ValueError"
proof -
  have "map (\<lambda>(las, los). map (\<lambda>(la, lo). in_bbox 50 0 150 la lo) (zip las los))
     (zip (lat_grid example_dataset) (lon_grid example_dataset))
   = [[False, False, False], [False, False, False]]"
    by (simp add: example_dataset_def in_bbox_def Let_def)
  moreover have "np_where [[False, False, False], [False, False, False]] = ([], [])"
    by code_simp
  ultimately show ?thesis by (simp add: bbox_span_def)
qed

theorem bbox_error_iff_empty_witness:
  "shape_ok example_dataset 2 3
   \<and> extract_reflectivity_cone (\<lambda>x. x) example_geod example_dataset 50 0 0 120 150 = Inl ValueError
   \<and> bbox_span example_dataset 0 0 150 = Inr (0, 1, 0, 1)
   \<and> in_bbox 0 0 150 (lat_grid example_dataset ! 0 ! 1) (lon_grid example_dataset ! 0 ! 1)
   \<and> \<not> in_bbox 0 0 150 (lat_grid example_dataset ! 0 ! 2) (lon_grid example_dataset ! 0 ! 2)"
proof -
  have far: "extract_reflectivity_cone (\<lambda>x. x) example_geod example_dataset 50 0 0 120 150
               = Inl ValueError"
    by (simp add: extract_reflectivity_cone_def example_far)
  have cells: "in_bbox 0 0 150 (lat_grid example_dataset ! 0 ! 1) (lon_grid example_dataset ! 0 ! 1)"
    "\<not> in_bbox 0 0 150 (lat_grid example_dataset ! 0 ! 2) (lon_grid example_dataset ! 0 ! 2)"
    by (simp_all add: example_dataset_def in_bbox_def deg2rad_def Let_def)
  from bbox_error_iff_empty [OF example_shape, of "\<lambda>x. x" example_geod 50 0 0 120 150]
  show ?thesis using example_shape far example_span cells by simp
qed

subsection \<open>Retry download\<close>

lemma attempts_loop_outcome:
  "attempts_loop net out m stop [lo..hi] s = (s', r) \<Longrightarrow>
   (files s' = files s \<and> write_calls s' = write_calls s \<and> (r = Inr None \<or> r = Inl RuntimeError))
   \<or> (\<exists>a resp. lo \<le> a \<and> a \<le> hi \<and> fetch net a = Some resp
         \<and> (\<forall>b. lo \<le> b \<and> b < a \<longrightarrow> fetch net b = None)
         \<and> files s' = (files s)(out \<mapsto> content resp)
         \<and> write_calls s' = write_calls s @ [(out, content resp)]
         \<and> r = Inr (Some out))"
proof (induction lo hi arbitrary: s rule: upto.induct)
  case (1 i j)
  show ?case
  proof (cases "i \<le> j")
    case False
    with "1.prems" show ?thesis by (simp add: upto.simps)
  next
    case True
    then have l: "[i..j] = i # [i + 1..j]" by (simp add: upto.simps)
    show ?thesis
    proof (cases "fetch net i")
      case (Some resp)
      with "1.prems" l have "files s' = (files s)(out \<mapsto> content resp)"
        "write_calls s' = write_calls s @ [(out, content resp)]" "r = Inr (Some out)"
        by auto
      with True Some have "i \<le> i \<and> i \<le> j \<and> fetch net i = Some resp
         \<and> (\<forall>b. i \<le> b \<and> b < i \<longrightarrow> fetch net b = None)
         \<and> files s' = (files s)(out \<mapsto> content resp)
         \<and> write_calls s' = write_calls s @ [(out, content resp)]
         \<and> r = Inr (Some out)" by auto
      then show ?thesis by blast
    next
      case None
      show ?thesis
      proof (cases "i = m \<and> stop")
        case True
        with "1.prems" l None show ?thesis by auto
      next
        case False
        let ?s1 = "if i < m then s\<lparr>slept := slept s + 5\<rparr> else s"
        from "1.prems" l None False
        have rec: "attempts_loop net out m stop [i + 1..j] ?s1 = (s', r)" by auto
        have s1: "files ?s1 = files s" "write_calls ?s1 = write_calls s" by simp_all
        from "1.IH" [OF True rec]
        show ?thesis
        proof
          assume "files s' = files ?s1 \<and> write_calls s' = write_calls ?s1
                  \<and> (r = Inr None \<or> r = Inl RuntimeError)"
          with s1 show ?thesis by simp
        next
          assume "\<exists>a resp. i + 1 \<le> a \<and> a \<le> j \<and> fetch net a = Some resp
             \<and> (\<forall>b. i + 1 \<le> b \<and> b < a \<longrightarrow> fetch net b = None)
             \<and> files s' = (files ?s1)(out \<mapsto> content resp)
             \<and> write_calls s' = write_calls ?s1 @ [(out, content resp)]
             \<and> r = Inr (Some out)"
          then obtain a resp where a: "i + 1 \<le> a" "a \<le> j" "fetch net a = Some resp"
             "\<forall>b. i + 1 \<le> b \<and> b < a \<longrightarrow> fetch net b = None"
             "files s' = (files ?s1)(out \<mapsto> content resp)"
             "write_calls s' = write_calls ?s1 @ [(out, content resp)]"
             "r = Inr (Some out)" by blast
          have "\<forall>b. i \<le> b \<and> b < a \<longrightarrow> fetch net b = None"
          proof (intro allI impI)
            fix b assume "i \<le> b \<and> b < a"
            then have "b = i \<or> (i + 1 \<le> b \<and> b < a)" by auto
            with None a(4) show "fetch net b = None" by blast
          qed
          moreover have "i \<le> a" using a(1) by simp
          ultimately have "i \<le> a \<and> a \<le> j \<and> fetch net a = Some resp
             \<and> (\<forall>b. i \<le> b \<and> b < a \<longrightarrow> fetch net b = None)
             \<and> files s' = (files s)(out \<mapsto> content resp)
             \<and> write_calls s' = write_calls s @ [(out, content resp)]
             \<and> r = Inr (Some out)"
            using a(2,3,5,6,7) s1 by simp
          then show ?thesis by blast
        qed
      qed
    qed
  qed
qed

text \<open>
  Claim C10. A failed attempt writes nothing. When every attempt fails, the files and the
  list of writes are as before the call and no path is returned. Otherwise at most one
  write happens: the whole body of the first attempt that passes the status check, to the
  output path, and the call returns that path at once.
\<close>

theorem download_writes_only_on_success:
  "get_api_data net output_path max_retries stop_on_maxretry s = (s', r) \<Longrightarrow>
   ((\<forall>a. 1 \<le> a \<and> a \<le> max_retries \<longrightarrow> fetch net a = None) \<longrightarrow>
       files s' = files s \<and> write_calls s' = write_calls s
       \<and> (r = Inr None \<or> r = Inl RuntimeError))
   \<and> ((files s' = files s \<and> write_calls s' = write_calls s
        \<and> (r = Inr None \<or> r = Inl RuntimeError))
      \<or> (\<exists>a resp. 1 \<le> a \<and> a \<le> max_retries \<and> fetch net a = Some resp
            \<and> (\<forall>b. 1 \<le> b \<and> b < a \<longrightarrow> fetch net b = None)
            \<and> files s' = (files s)(output_path \<mapsto> content resp)
            \<and> write_calls s' = write_calls s @ [(output_path, content resp)]
            \<and> r = Inr (Some output_path)))"
proof -
  assume "get_api_data net output_path max_retries stop_on_maxretry s = (s', r)"
  then have "attempts_loop net output_path max_retries stop_on_maxretry [1..max_retries] s
               = (s', r)"
    by (simp add: get_api_data_def)
  from attempts_loop_outcome [OF this] show ?thesis by (metis option.distinct(1))
qed


theorem download_writes_only_on_success_witness:
  "get_api_data (\<lambda>a. None) ''out.tar'' 2 False empty_disk = (empty_disk\<lparr>slept := 5\<rparr>, Inr None)
   \<and> files (empty_disk\<lparr>slept := 5\<rparr>) = files empty_disk
   \<and> write_calls (fst (get_api_data flaky_net ''out.tar'' 5 False empty_disk))
       = [(''out.tar'', ''TAR'')]
   \<and> snd (get_api_data flaky_net ''out.tar'' 5 False empty_disk) = Inr (Some ''out.tar'')"
proof -
  have e: "get_api_data (\<lambda>a. None) ''out.tar'' 2 False empty_disk
             = (empty_disk\<lparr>slept := 5\<rparr>, Inr None)"
    by (simp add: get_api_data_def fetch_def empty_disk_def upto_rec1)
  have f: "get_api_data flaky_net ''out.tar'' 5 False empty_disk
             = (\<lparr>files = [''out.tar'' \<mapsto> ''TAR''], write_calls = [(''out.tar'', ''TAR'')],
                 slept = 10\<rparr>, Inr (Some ''out.tar''))"
    by (simp add: get_api_data_def fetch_def empty_disk_def flaky_net_def upto_rec1)
  from download_writes_only_on_success [OF e] e f show ?thesis by simp
qed

subsection \<open>Half-day bucket\<close>

text \<open>
  The half-day bucket of an instant is 00:00 or 12:00 of the same day, at most the
  instant's hour and less than twelve hours before it; a bucket is its own bucket. 11:59
  falls in the bucket of 00:00, 12:00 in the bucket of 12:00.
\<close>

theorem half_day_bucket:
  "0 \<le> hour d \<Longrightarrow> hour d < 24 \<Longrightarrow>
   (let b = dat_to_dat_half d
    in year b = year d \<and> month b = month d \<and> day b = day d \<and> minute b = 0
       \<and> hour b = (if hour d < 12 then 0 else 12)
       \<and> hour b \<le> hour d \<and> hour d < hour b + 12
       \<and> dat_to_dat_half b = b)"
  by (simp add: dat_to_dat_half_def Let_def)

theorem half_day_bucket_witness:
  "dat_to_dat_half \<lparr>year = 2025, month = 6, day = 17, hour = 11, minute = 59\<rparr>
     = \<lparr>year = 2025, month = 6, day = 17, hour = 0, minute = 0\<rparr>
   \<and> dat_to_dat_half \<lparr>year = 2025, month = 6, day = 17, hour = 12, minute = 0\<rparr>
     = \<lparr>year = 2025, month = 6, day = 17, hour = 12, minute = 0\<rparr>"
  using half_day_bucket [of "\<lparr>year = 2025, month = 6, day = 17, hour = 11, minute = 59\<rparr>"]
    half_day_bucket [of "\<lparr>year = 2025, month = 6, day = 17, hour = 12, minute = 0\<rparr>"]
  by (simp add: dat_to_dat_half_def)

end
